theory Spec2Isabelle
  imports Complex_Main "HOL-Library.AList"
begin

section \<open>Errors and JavaScript values\<close>

text \<open>
  The typed conditions of \<open>expressError\<close> that the models and the middleware throw, with
  their messages, and \<open>DbError\<close> for a failure raised by the store itself (an exception
  of the database driver, which the code never catches and which reaches the request
  boundary as a generic fault).
\<close>

datatype error =
    BadRequestError string
  | NotFoundError string
  | UnauthorizedError
  | DbError

text \<open>
  The JavaScript values that travel between the callers, the models and the store.
  An object is the list of its own properties in iteration order. \<open>Dec q\<close> is the
  decimal text of the NUMERIC value \<open>q\<close>, the form in which the driver takes and returns
  such a column: the string "0.1" of the tests is \<open>Dec (1 / 10)\<close>, and "0" is \<open>Dec 0\<close>.
\<close>

datatype jsval =
    Undefined
  | Null
  | Num int
  | Str string
  | Dec rat
  | Obj "(string \<times> jsval) list"

type_synonym jsobject = "(string \<times> jsval) list"

text \<open>Reading a property: a missing property reads as \<open>undefined\<close>.\<close>

definition get_prop :: "jsobject \<Rightarrow> string \<Rightarrow> jsval" where
  "get_prop obj k = (case map_of obj k of None \<Rightarrow> Undefined | Some v \<Rightarrow> v)"

section \<open>Strings\<close>

text \<open>\<open>Array.prototype.join\<close> on a list of strings.\<close>

fun join :: "string \<Rightarrow> string list \<Rightarrow> string" where
  "join sep [] = []"
| "join sep [x] = x"
| "join sep (x # y # ys) = x @ sep @ join sep (y # ys)"

text \<open>The decimal text of a number, as string interpolation produces it.\<close>

definition digit_char :: "nat \<Rightarrow> char" where
  "digit_char d = ''0123456789'' ! d"

function string_of_nat :: "nat \<Rightarrow> string" where
  "string_of_nat n =
     (if n < 10 then [digit_char n]
      else string_of_nat (n div 10) @ [digit_char (n mod 10)])"
  by pat_completeness auto
termination
  by (relation "measure (\<lambda>n. n)") auto

declare string_of_nat.simps [simp del]

definition string_of_int :: "int \<Rightarrow> string" where
  "string_of_int i =
     (if i < 0 then CHR ''-'' # string_of_nat (nat (- i)) else string_of_nat (nat i))"

text \<open>
  \<open>String.prototype.trim\<close>. A header value is a string of one-byte characters, and
  the white space and line terminators of JavaScript among them are tab, line feed,
  vertical tab, form feed, carriage return, space and the no-break space.
\<close>

definition is_ws :: "char \<Rightarrow> bool" where
  "is_ws c = (of_char c \<in> {9, 10, 11, 12, 13, 32, 160 :: nat})"

definition trim :: "string \<Rightarrow> string" where
  "trim s = rev (dropWhile is_ws (rev (dropWhile is_ws s)))"

section \<open>Authorization middleware (middleware/auth.js)\<close>

text \<open>
  The token payload that \<open>jwt.verify\<close> returns, the request as far as the middleware reads
  it (the authorization header, where \<open>req.headers\<close> itself may be missing, and the path
  parameters) and \<open>res.locals\<close>, where the identity is stored.
\<close>

record payload =
  username :: string
  isAdmin :: bool

record headers =
  authorization :: "string option"

record request =
  headers :: "headers option"
  params :: "(string \<times> string) list"

record locals =
  user :: "payload option"

text \<open>What a middleware hands to \<open>next\<close>: nothing, or an error.\<close>

datatype continuation = Next | NextErr error

text \<open>
  \<open>authHeader.replace(/^[Bb]earer /, "")\<close>: the pattern is anchored at the start of the
  string and has no global flag, so one match at most is replaced.
\<close>

definition bearer_prefix :: "string \<Rightarrow> bool" where
  "bearer_prefix s = (take 7 s = ''Bearer '' \<or> take 7 s = ''bearer '')"

definition replace_bearer :: "string \<Rightarrow> string" where
  "replace_bearer s = (if bearer_prefix s then drop 7 s else s)"

definition token_of_header :: "string \<Rightarrow> string" where
  "token_of_header s = trim (replace_bearer s)"

text \<open>
  \<open>authenticateJWT\<close>. The verification of the token against the secret key belongs to
  the \<open>jsonwebtoken\<close> library: it is the parameter \<open>verify\<close>, which gives the payload or
  \<open>None\<close> where the library throws. \<open>authHeader\<close> is \<open>req.headers && req.headers.authorization\<close>;
  an empty header is falsy and is not verified.
  Both the normal path and the \<open>catch\<close> end in \<open>next()\<close>.
\<close>

definition authHeader :: "request \<Rightarrow> string option" where
  "authHeader req = (case headers req of None \<Rightarrow> None | Some h \<Rightarrow> authorization h)"

definition authenticateJWT ::
  "(string \<Rightarrow> payload option) \<Rightarrow> request \<Rightarrow> locals \<Rightarrow> continuation \<times> locals" where
  "authenticateJWT verify req res =
     (case authHeader req of
        None \<Rightarrow> (Next, res)
      | Some a \<Rightarrow>
          if a = [] then (Next, res)
          else (case verify (token_of_header a) of
                  None \<Rightarrow> (Next, res)
                | Some p \<Rightarrow> (Next, res\<lparr>user := Some p\<rparr>)))"

definition ensureLoggedIn :: "request \<Rightarrow> locals \<Rightarrow> continuation \<times> locals" where
  "ensureLoggedIn req res =
     (case user res of None \<Rightarrow> (NextErr UnauthorizedError, res) | Some u \<Rightarrow> (Next, res))"

definition ensureAdmin :: "request \<Rightarrow> locals \<Rightarrow> continuation \<times> locals" where
  "ensureAdmin req res =
     (case user res of
        None \<Rightarrow> (NextErr UnauthorizedError, res)
      | Some u \<Rightarrow> if isAdmin u then (Next, res) else (NextErr UnauthorizedError, res))"

definition ensureCorrectUserOrAdmin :: "request \<Rightarrow> locals \<Rightarrow> continuation \<times> locals" where
  "ensureCorrectUserOrAdmin req res =
     (case user res of
        None \<Rightarrow> (NextErr UnauthorizedError, res)
      | Some u \<Rightarrow>
          if isAdmin u \<or> map_of (params req) ''username'' = Some (username u)
          then (Next, res)
          else (NextErr UnauthorizedError, res))"

section \<open>The partial-update helper (helpers/sql.js)\<close>

text \<open>
  Modelled from the spec: the column of a field, for \<open>sqlForPartialUpdate\<close> below (section
  4.1: a field absent from the column-name mapping uses its logical name as the physical
  name).
\<close>

definition column :: "(string \<times> string) list \<Rightarrow> string \<Rightarrow> string" where
  "column jsToSql colName = (case map_of jsToSql colName of None \<Rightarrow> colName | Some c \<Rightarrow> c)"

text \<open>
  Modelled from the spec: the assignments of \<open>sqlForPartialUpdate\<close> below (section 4.1: each
  field as \<open>"column"=$position\<close>, the positions assigned in the iteration order of the input
  mapping starting at 1). \<open>idx\<close> is the index of the key, from 0, and \<open>CHR 0x22\<close> the double
  quote.
\<close>

fun assignments :: "(string \<times> string) list \<Rightarrow> string list \<Rightarrow> nat \<Rightarrow> string list" where
  "assignments jsToSql [] idx = []"
| "assignments jsToSql (colName # keys) idx =
     (CHR 0x22 # column jsToSql colName @ CHR 0x22 # ''=$'' @ string_of_nat (idx + 1))
       # assignments jsToSql keys (idx + 1)"

text \<open>The result \<open>{ setCols, values }\<close>.\<close>

record partial_update =
  setCols :: string
  "values" :: "jsval list"

text \<open>
  Modelled from the spec: \<open>sqlForPartialUpdate\<close> of helpers/sql.js, which is not among the
  sources (its test and its two callers are). Section 4.1: the input is a mapping from
  logical field name to new value and a mapping from logical field name to physical
  column name; the output is the assignment clause, the assignments joined by a comma
  and a space, with the list of the values in the same order; an empty input fails
  with a bad-request error that says that no data was given. \<open>dataToUpdate\<close> is the
  object as the list of its properties in iteration order.
\<close>

definition sqlForPartialUpdate ::
  "jsobject \<Rightarrow> (string \<times> string) list \<Rightarrow> error + partial_update" where
  "sqlForPartialUpdate dataToUpdate jsToSql =
     (let keys = map fst dataToUpdate in
      if keys = [] then Inl (BadRequestError ''No data'')
      else Inr \<lparr>setCols = join '', '' (assignments jsToSql keys 0),
                values = map snd dataToUpdate\<rparr>)"


section \<open>The relational store\<close>

text \<open>
  Modelled from the spec: the tables behind \<open>db.query\<close> (db.js and the schema are not
  among the sources). Section 3 gives the columns: a company has its handle, name,
  description, a nullable employee count and a nullable logo URL; a job has a generated
  numeric identifier, a title, a nullable salary, a nullable decimal equity and the
  handle of its company. The fields are the columns of the statements in the models,
  with \<open>c_\<close> before those of a company and \<open>j_\<close> before those of a job.
\<close>

record company_row =
  c_handle :: string
  c_name :: string
  c_description :: string
  c_num_employees :: "int option"
  c_logo_url :: "string option"

record job_row =
  j_id :: int
  j_title :: string
  j_salary :: "int option"
  j_equity :: "rat option"
  j_company_handle :: string

text \<open>
  Modelled from the spec: the state of the store. Besides the two tables it holds the
  next value of the sequence that generates job identifiers, the number of statements
  it has been sent (so that "before any query" can be said), and the two operators that
  belong to the database engine and its collation: the case-insensitive pattern match
  \<open>ilike subject pattern\<close> and the order of \<open>ORDER BY\<close> on text.
\<close>

record db =
  companies :: "company_row list"
  jobs :: "job_row list"
  jobs_id_seq :: int
  queries :: nat
  ilike :: "string \<Rightarrow> string \<Rightarrow> bool"
  collate_le :: "string \<Rightarrow> string \<Rightarrow> bool"

text \<open>
  The predicates that \<open>findAll\<close> pushes on its list of conditions, with the position of
  the parameter each one names, and their SQL text.
\<close>

datatype company_cond = NumEmployeesGe nat | NumEmployeesLe nat | NameILike nat

datatype job_cond = SalaryGe nat | EquityPositive | TitleILike nat

text \<open>
  The statements that the models send: the fixed ones by name, the searches with their
  list of conditions, the updates with the text of their SET clause and the position of
  the parameter that holds the key.
  \<^item> \<open>SelectCompanyHandle\<close>: \<open>SELECT handle FROM companies WHERE handle = $1\<close>
  \<^item> \<open>InsertCompany\<close>: \<open>INSERT INTO companies (handle, name, description, num_employees,
    logo_url) VALUES ($1, $2, $3, $4, $5) RETURNING handle, name, description,
    num_employees AS "numEmployees", logo_url AS "logoUrl"\<close>
  \<^item> \<open>SelectCompanies\<close>: \<open>SELECT handle, name, description, num_employees AS "numEmployees",
    logo_url AS "logoUrl" FROM companies\<close>, then \<open>WHERE\<close> and the conditions joined by
    \<open>AND\<close> when there is one, then \<open>ORDER BY name\<close>
  \<^item> \<open>SelectCompany\<close>: the same columns \<open>FROM companies WHERE handle = $1\<close>
  \<^item> \<open>UpdateCompanies setCols k\<close>: \<open>UPDATE companies SET setCols WHERE handle = $k
    RETURNING\<close> the same columns
  \<^item> \<open>DeleteCompany\<close>: \<open>DELETE FROM companies WHERE handle = $1 RETURNING handle\<close>
  \<^item> \<open>InsertJob\<close>: \<open>INSERT INTO jobs (title, salary, equity, company_handle) VALUES ($1, $2,
    $3, $4) RETURNING id, title, salary, equity, company_handle AS "companyHandle"\<close>
  \<^item> \<open>SelectJobs\<close>: \<open>SELECT j.id, j.title, j.salary, j.equity, j.company_handle AS
    "companyHandle", c.name AS "companyName" FROM jobs j LEFT JOIN companies AS c ON
    c.handle = j.company_handle\<close>, then the conditions as above, then \<open>ORDER BY title\<close>
  \<^item> \<open>SelectJob\<close>: \<open>SELECT id, title, salary, equity, company_handle AS "companyHandle"
    FROM jobs WHERE id = $1\<close>
  \<^item> \<open>UpdateJobs setCols k\<close>: \<open>UPDATE jobs SET setCols WHERE id = $k RETURNING\<close> the same
    columns
  \<^item> \<open>DeleteJob\<close>: \<open>DELETE FROM jobs WHERE id = $1 RETURNING id\<close>
\<close>

datatype statement =
    SelectCompanyHandle
  | InsertCompany
  | SelectCompanies "company_cond list"
  | SelectCompany
  | UpdateCompanies string nat
  | DeleteCompany
  | InsertJob
  | SelectJobs "job_cond list"
  | SelectJob
  | UpdateJobs string nat
  | DeleteJob

fun company_cond_sql :: "company_cond \<Rightarrow> string" where
  "company_cond_sql (NumEmployeesGe n) = ''num_employees >= $'' @ string_of_nat n"
| "company_cond_sql (NumEmployeesLe n) = ''num_employees <= $'' @ string_of_nat n"
| "company_cond_sql (NameILike n) = ''name ILIKE $'' @ string_of_nat n"

fun job_cond_sql :: "job_cond \<Rightarrow> string" where
  "job_cond_sql (SalaryGe n) = ''salary >= $'' @ string_of_nat n"
| "job_cond_sql EquityPositive = ''equity > 0''"
| "job_cond_sql (TitleILike n) = ''title ILIKE $'' @ string_of_nat n"

text \<open>
  Modelled from the spec: the value a parameter gives to a column of each type, \<open>None\<close>
  where the store rejects it. A text column that cannot be null takes a string; a
  nullable column also takes \<open>null\<close>, and \<open>undefined\<close>, which the driver sends as null.
  The conversions between types that the driver and the engine would attempt are not
  modelled for these columns: a value of another type is rejected. (The identifier of a
  job, which the routes pass as the text of the path, is read by \<open>id_value\<close> below.)
\<close>

fun text_value :: "jsval \<Rightarrow> string option" where
  "text_value (Str s) = Some s"
| "text_value v = None"

fun nullable_text :: "jsval \<Rightarrow> string option option" where
  "nullable_text (Str s) = Some (Some s)"
| "nullable_text Null = Some None"
| "nullable_text Undefined = Some None"
| "nullable_text v = None"

fun nullable_int :: "jsval \<Rightarrow> int option option" where
  "nullable_int (Num n) = Some (Some n)"
| "nullable_int Null = Some None"
| "nullable_int Undefined = Some None"
| "nullable_int v = None"

fun nullable_dec :: "jsval \<Rightarrow> rat option option" where
  "nullable_dec (Dec q) = Some (Some q)"
| "nullable_dec Null = Some None"
| "nullable_dec Undefined = Some None"
| "nullable_dec v = None"

text \<open>The parameter \<open>$n\<close> of a statement, counted from 1.\<close>

definition param :: "jsval list \<Rightarrow> nat \<Rightarrow> jsval option" where
  "param ps n = (if 0 < n \<and> n \<le> length ps then Some (ps ! (n - 1)) else None)"

text \<open>
  The rows as the statements return them, under the names of their \<open>RETURNING\<close> and
  \<open>SELECT\<close> lists (\<open>num_employees AS "numEmployees"\<close> and so on).
\<close>

definition of_nullable :: "('a \<Rightarrow> jsval) \<Rightarrow> 'a option \<Rightarrow> jsval" where
  "of_nullable f x = (case x of None \<Rightarrow> Null | Some v \<Rightarrow> f v)"

definition company_obj :: "company_row \<Rightarrow> jsobject" where
  "company_obj r =
     [(''handle'', Str (c_handle r)),
      (''name'', Str (c_name r)),
      (''description'', Str (c_description r)),
      (''numEmployees'', of_nullable Num (c_num_employees r)),
      (''logoUrl'', of_nullable Str (c_logo_url r))]"

definition job_obj :: "job_row \<Rightarrow> jsobject" where
  "job_obj r =
     [(''id'', Num (j_id r)),
      (''title'', Str (j_title r)),
      (''salary'', of_nullable Num (j_salary r)),
      (''equity'', of_nullable Dec (j_equity r)),
      (''companyHandle'', Str (j_company_handle r))]"

text \<open>
  Modelled from the spec: the predicates of section 4.2. A condition is well formed when
  its parameter was sent and fits the column; it holds of a row when the comparison is
  true, which it is not when the column or the parameter is null.
\<close>

fun company_cond_ok :: "jsval list \<Rightarrow> company_cond \<Rightarrow> bool" where
  "company_cond_ok ps (NumEmployeesGe n) =
     (case param ps n of None \<Rightarrow> False | Some v \<Rightarrow> nullable_int v \<noteq> None)"
| "company_cond_ok ps (NumEmployeesLe n) =
     (case param ps n of None \<Rightarrow> False | Some v \<Rightarrow> nullable_int v \<noteq> None)"
| "company_cond_ok ps (NameILike n) =
     (case param ps n of None \<Rightarrow> False | Some v \<Rightarrow> nullable_text v \<noteq> None)"

fun company_cond_holds :: "db \<Rightarrow> jsval list \<Rightarrow> company_row \<Rightarrow> company_cond \<Rightarrow> bool" where
  "company_cond_holds d ps r (NumEmployeesGe n) =
     (case (c_num_employees r, param ps n) of (Some e, Some (Num v)) \<Rightarrow> e \<ge> v | _ \<Rightarrow> False)"
| "company_cond_holds d ps r (NumEmployeesLe n) =
     (case (c_num_employees r, param ps n) of (Some e, Some (Num v)) \<Rightarrow> e \<le> v | _ \<Rightarrow> False)"
| "company_cond_holds d ps r (NameILike n) =
     (case param ps n of Some (Str p) \<Rightarrow> ilike d (c_name r) p | _ \<Rightarrow> False)"

fun job_cond_ok :: "jsval list \<Rightarrow> job_cond \<Rightarrow> bool" where
  "job_cond_ok ps (SalaryGe n) =
     (case param ps n of None \<Rightarrow> False | Some v \<Rightarrow> nullable_int v \<noteq> None)"
| "job_cond_ok ps EquityPositive = True"
| "job_cond_ok ps (TitleILike n) =
     (case param ps n of None \<Rightarrow> False | Some v \<Rightarrow> nullable_text v \<noteq> None)"

fun job_cond_holds :: "db \<Rightarrow> jsval list \<Rightarrow> job_row \<Rightarrow> job_cond \<Rightarrow> bool" where
  "job_cond_holds d ps r (SalaryGe n) =
     (case (j_salary r, param ps n) of (Some s, Some (Num v)) \<Rightarrow> s \<ge> v | _ \<Rightarrow> False)"
| "job_cond_holds d ps r EquityPositive =
     (case j_equity r of None \<Rightarrow> False | Some q \<Rightarrow> q > 0)"
| "job_cond_holds d ps r (TitleILike n) =
     (case param ps n of Some (Str p) \<Rightarrow> ilike d (j_title r) p | _ \<Rightarrow> False)"

text \<open>\<open>ORDER BY\<close>: the rows sorted by a text column under the order of the store.\<close>

fun insert_row :: "(string \<Rightarrow> string \<Rightarrow> bool) \<Rightarrow> ('a \<Rightarrow> string) \<Rightarrow> 'a \<Rightarrow> 'a list \<Rightarrow> 'a list" where
  "insert_row le key r [] = [r]"
| "insert_row le key r (x # xs) =
     (if le (key r) (key x) then r # x # xs else x # insert_row le key r xs)"

definition order_by :: "(string \<Rightarrow> string \<Rightarrow> bool) \<Rightarrow> ('a \<Rightarrow> string) \<Rightarrow> 'a list \<Rightarrow> 'a list" where
  "order_by le key rows = foldr (insert_row le key) rows []"

text \<open>
  \<open>FROM jobs j LEFT JOIN companies AS c ON c.handle = j.company_handle\<close>, with \<open>c.name\<close> as
  \<open>companyName\<close>: a job without a company is listed once, with null.
\<close>

definition left_join_company :: "db \<Rightarrow> job_row \<Rightarrow> (job_row \<times> jsval) list" where
  "left_join_company d j =
     (case filter (\<lambda>c. c_handle c = j_company_handle j) (companies d) of
        [] \<Rightarrow> [(j, Null)]
      | cs \<Rightarrow> map (\<lambda>c. (j, Str (c_name c))) cs)"

definition job_listing :: "job_row \<times> jsval \<Rightarrow> jsobject" where
  "job_listing jc = job_obj (fst jc) @ [(''companyName'', snd jc)]"

text \<open>
  Modelled from the spec: the columns an UPDATE may assign and the values they take.
  The primary keys are not among them (section 3: they are never mutated by update
  operations), and an unknown column is rejected.
\<close>

definition assignable_company :: "string \<Rightarrow> jsval \<Rightarrow> bool" where
  "assignable_company col v =
     (if col = ''name'' \<or> col = ''description'' then text_value v \<noteq> None
      else if col = ''num_employees'' then nullable_int v \<noteq> None
      else if col = ''logo_url'' then nullable_text v \<noteq> None
      else False)"

definition assign_company :: "company_row \<Rightarrow> string \<times> jsval \<Rightarrow> company_row" where
  "assign_company r a =
     (case a of (col, v) \<Rightarrow>
        if col = ''name'' then (case text_value v of None \<Rightarrow> r | Some s \<Rightarrow> r\<lparr>c_name := s\<rparr>)
        else if col = ''description'' then (case text_value v of None \<Rightarrow> r | Some s \<Rightarrow> r\<lparr>c_description := s\<rparr>)
        else if col = ''num_employees'' then (case nullable_int v of None \<Rightarrow> r | Some n \<Rightarrow> r\<lparr>c_num_employees := n\<rparr>)
        else if col = ''logo_url'' then (case nullable_text v of None \<Rightarrow> r | Some l \<Rightarrow> r\<lparr>c_logo_url := l\<rparr>)
        else r)"

definition assignable_job :: "string \<Rightarrow> jsval \<Rightarrow> bool" where
  "assignable_job col v =
     (if col = ''title'' \<or> col = ''company_handle'' then text_value v \<noteq> None
      else if col = ''salary'' then nullable_int v \<noteq> None
      else if col = ''equity'' then nullable_dec v \<noteq> None
      else False)"

definition assign_job :: "job_row \<Rightarrow> string \<times> jsval \<Rightarrow> job_row" where
  "assign_job r a =
     (case a of (col, v) \<Rightarrow>
        if col = ''title'' then (case text_value v of None \<Rightarrow> r | Some s \<Rightarrow> r\<lparr>j_title := s\<rparr>)
        else if col = ''company_handle'' then (case text_value v of None \<Rightarrow> r | Some s \<Rightarrow> r\<lparr>j_company_handle := s\<rparr>)
        else if col = ''salary'' then (case nullable_int v of None \<Rightarrow> r | Some n \<Rightarrow> r\<lparr>j_salary := n\<rparr>)
        else if col = ''equity'' then (case nullable_dec v of None \<Rightarrow> r | Some q \<Rightarrow> r\<lparr>j_equity := q\<rparr>)
        else r)"

text \<open>
  The store reads the SET clause of an UPDATE from its text: assignments
  \<open>"column"=$position\<close> separated by a comma and a space.
\<close>

definition is_digit :: "char \<Rightarrow> bool" where
  "is_digit c = (48 \<le> (of_char c :: nat) \<and> (of_char c :: nat) \<le> 57)"

definition nat_of_digits :: "string \<Rightarrow> nat" where
  "nat_of_digits ds = foldl (\<lambda>n c. 10 * n + (of_char c - 48)) 0 ds"

fun quoted_identifier :: "string \<Rightarrow> (string \<times> string) option" where
  "quoted_identifier [] = None"
| "quoted_identifier (c # cs) =
     (if c = CHR 0x22 then Some ([], cs)
      else (case quoted_identifier cs of
              None \<Rightarrow> None
            | Some (x, rest) \<Rightarrow> Some (c # x, rest)))"

definition parse_assignment :: "string \<Rightarrow> ((string \<times> nat) \<times> string) option" where
  "parse_assignment s =
     (case s of
        [] \<Rightarrow> None
      | q # r \<Rightarrow>
          if q \<noteq> CHR 0x22 then None
          else (case quoted_identifier r of
                  None \<Rightarrow> None
                | Some (col, r1) \<Rightarrow>
                    if take 2 r1 = ''=$'' \<and> takeWhile is_digit (drop 2 r1) \<noteq> []
                    then Some ((col, nat_of_digits (takeWhile is_digit (drop 2 r1))),
                               dropWhile is_digit (drop 2 r1))
                    else None))"

lemma quoted_identifier_length:
  "quoted_identifier s = Some (x, rest) \<Longrightarrow> length rest < length s"
  by (induction s arbitrary: x rest) (auto split: if_splits option.splits)

lemma parse_assignment_length:
  assumes "parse_assignment s = Some (a, rest)"
  shows "length rest < length s"
proof -
  from assms obtain r col r1 where s: "s = CHR 0x22 # r"
    and q: "quoted_identifier r = Some (col, r1)"
    and rest: "rest = dropWhile is_digit (drop 2 r1)"
    unfolding parse_assignment_def
    by (auto split: list.splits if_splits option.splits)
  have "length rest \<le> length (drop 2 r1)"
    unfolding rest by (rule length_dropWhile_le)
  also have "\<dots> \<le> length r1" by simp
  also have "\<dots> < length r" using q by (rule quoted_identifier_length)
  finally show ?thesis using s by simp
qed

function parse_set_clause :: "string \<Rightarrow> (string \<times> nat) list option" where
  "parse_set_clause s =
     (case parse_assignment s of
        None \<Rightarrow> None
      | Some (a, rest) \<Rightarrow>
          if rest = [] then Some [a]
          else if take 2 rest = '', ''
          then (case parse_set_clause (drop 2 rest) of
                  None \<Rightarrow> None
                | Some as \<Rightarrow> Some (a # as))
          else None)"
  by pat_completeness auto
termination
  by (relation "measure length") (auto dest!: parse_assignment_length)

declare parse_set_clause.simps [simp del]

text \<open>
  Modelled from the spec: the value a parameter gives to the identifier of a job
  (section 3: a generated numeric identifier; the column is a 32-bit integer). A number
  must lie in the range of the column. A string, which is how the routes pass
  \<open>req.params.id\<close>, must be the decimal notation of such a number: an optional sign and
  digits, with white space allowed around them; any other text is malformed. \<open>None\<close> is
  the error of the driver, \<open>Some None\<close> the null that equals no identifier.
\<close>

definition int4 :: "int \<Rightarrow> bool" where
  "int4 n = (- 2147483648 \<le> n \<and> n \<le> 2147483647)"

definition pg_space :: "char \<Rightarrow> bool" where
  "pg_space c = (of_char c \<in> {9, 10, 11, 12, 13, 32 :: nat})"

definition pg_trim :: "string \<Rightarrow> string" where
  "pg_trim s = rev (dropWhile pg_space (rev (dropWhile pg_space s)))"

definition signed_digits :: "string \<Rightarrow> int option" where
  "signed_digits s =
     (case s of
        [] \<Rightarrow> None
      | c # ds \<Rightarrow>
          if c = CHR ''-''
          then (if ds \<noteq> [] \<and> list_all is_digit ds then Some (- int (nat_of_digits ds))
                else None)
          else if c = CHR ''+''
          then (if ds \<noteq> [] \<and> list_all is_digit ds then Some (int (nat_of_digits ds))
                else None)
          else if list_all is_digit s then Some (int (nat_of_digits s))
          else None)"

definition int_of_text :: "string \<Rightarrow> int option" where
  "int_of_text s = signed_digits (pg_trim s)"

fun id_value :: "jsval \<Rightarrow> int option option" where
  "id_value (Num n) = (if int4 n then Some (Some n) else None)"
| "id_value (Str s) =
     (case int_of_text s of
        None \<Rightarrow> None
      | Some n \<Rightarrow> if int4 n then Some (Some n) else None)"
| "id_value Null = Some None"
| "id_value Undefined = Some None"
| "id_value v = None"

text \<open>
  The SET clause of an UPDATE with its parameters bound: the column and the value of
  each assignment, or nothing where the clause does not parse, names a parameter that
  was not sent, or assigns a column twice.
\<close>

definition bound_assignments :: "string \<Rightarrow> jsval list \<Rightarrow> (string \<times> jsval) list option" where
  "bound_assignments setClause ps =
     (case parse_set_clause setClause of
        None \<Rightarrow> None
      | Some as \<Rightarrow>
          if list_all (\<lambda>a. param ps (snd a) \<noteq> None) as \<and> distinct (map fst as)
          then Some (map (\<lambda>a. (fst a, case param ps (snd a) of None \<Rightarrow> Null | Some v \<Rightarrow> v)) as)
          else None)"

text \<open>
  Modelled from the spec: what each statement does to the store and the rows it returns
  (section 6: the store consumes parameterized SQL and a positional parameter list and
  returns row sets). A statement that is malformed, or that would repeat a primary key
  or give a job an identifier outside the range of its column, fails with \<open>DbError\<close>
  and changes no table. Constraints of the schema other than the types of the columns
  and the primary keys are not modelled.
\<close>

fun run :: "statement \<Rightarrow> jsval list \<Rightarrow> db \<Rightarrow> (error + jsobject list) \<times> db" where
  "run SelectCompanyHandle [k] d =
     (case nullable_text k of
        None \<Rightarrow> (Inl DbError, d)
      | Some key \<Rightarrow>
          (Inr (map (\<lambda>r. [(''handle'', Str (c_handle r))])
                 (filter (\<lambda>r. Some (c_handle r) = key) (companies d))), d))"
| "run InsertCompany [h, n, ds, ne, l] d =
     (case (text_value h, text_value n, text_value ds, nullable_int ne, nullable_text l) of
        (Some h', Some n', Some ds', Some ne', Some l') \<Rightarrow>
          if h' \<in> set (map c_handle (companies d)) then (Inl DbError, d)
          else (let r = \<lparr>c_handle = h', c_name = n', c_description = ds',
                          c_num_employees = ne', c_logo_url = l'\<rparr>
                in (Inr [company_obj r], d\<lparr>companies := companies d @ [r]\<rparr>))
      | _ \<Rightarrow> (Inl DbError, d))"
| "run (SelectCompanies conds) ps d =
     (if list_all (company_cond_ok ps) conds
      then (Inr (map company_obj
                  (order_by (collate_le d) c_name
                     (filter (\<lambda>r. list_all (company_cond_holds d ps r) conds) (companies d)))), d)
      else (Inl DbError, d))"
| "run SelectCompany [k] d =
     (case nullable_text k of
        None \<Rightarrow> (Inl DbError, d)
      | Some key \<Rightarrow>
          (Inr (map company_obj (filter (\<lambda>r. Some (c_handle r) = key) (companies d))), d))"
| "run (UpdateCompanies setClause keyIdx) ps d =
     (case (bound_assignments setClause ps, param ps keyIdx) of
        (Some as, Some k) \<Rightarrow>
          (case nullable_text k of
             None \<Rightarrow> (Inl DbError, d)
           | Some key \<Rightarrow>
               if list_all (\<lambda>a. assignable_company (fst a) (snd a)) as
               then (Inr (map (\<lambda>r. company_obj (foldl assign_company r as))
                            (filter (\<lambda>r. Some (c_handle r) = key) (companies d))),
                     d\<lparr>companies :=
                         map (\<lambda>r. if Some (c_handle r) = key then foldl assign_company r as else r)
                           (companies d)\<rparr>)
               else (Inl DbError, d))
      | _ \<Rightarrow> (Inl DbError, d))"
| "run DeleteCompany [k] d =
     (case nullable_text k of
        None \<Rightarrow> (Inl DbError, d)
      | Some key \<Rightarrow>
          (Inr (map (\<lambda>r. [(''handle'', Str (c_handle r))])
                 (filter (\<lambda>r. Some (c_handle r) = key) (companies d))),
           d\<lparr>companies := filter (\<lambda>r. Some (c_handle r) \<noteq> key) (companies d)\<rparr>))"
| "run InsertJob [t, s, e, ch] d =
     (case (text_value t, nullable_int s, nullable_dec e, text_value ch) of
        (Some t', Some s', Some e', Some ch') \<Rightarrow>
          if jobs_id_seq d \<in> set (map j_id (jobs d)) \<or> \<not> int4 (jobs_id_seq d)
          then (Inl DbError, d\<lparr>jobs_id_seq := jobs_id_seq d + 1\<rparr>)
          else (let r = \<lparr>j_id = jobs_id_seq d, j_title = t', j_salary = s', j_equity = e',
                          j_company_handle = ch'\<rparr>
                in (Inr [job_obj r],
                    d\<lparr>jobs := jobs d @ [r], jobs_id_seq := jobs_id_seq d + 1\<rparr>))
      | _ \<Rightarrow> (Inl DbError, d))"
| "run (SelectJobs conds) ps d =
     (if list_all (job_cond_ok ps) conds
      then (Inr (map job_listing
                  (order_by (collate_le d) (\<lambda>jc. j_title (fst jc))
                     (filter (\<lambda>jc. list_all (job_cond_holds d ps (fst jc)) conds)
                        (concat (map (left_join_company d) (jobs d)))))), d)
      else (Inl DbError, d))"
| "run SelectJob [k] d =
     (case id_value k of
        None \<Rightarrow> (Inl DbError, d)
      | Some key \<Rightarrow>
          (Inr (map job_obj (filter (\<lambda>r. Some (j_id r) = key) (jobs d))), d))"
| "run (UpdateJobs setClause keyIdx) ps d =
     (case (bound_assignments setClause ps, param ps keyIdx) of
        (Some as, Some k) \<Rightarrow>
          (case id_value k of
             None \<Rightarrow> (Inl DbError, d)
           | Some key \<Rightarrow>
               if list_all (\<lambda>a. assignable_job (fst a) (snd a)) as
               then (Inr (map (\<lambda>r. job_obj (foldl assign_job r as))
                            (filter (\<lambda>r. Some (j_id r) = key) (jobs d))),
                     d\<lparr>jobs :=
                         map (\<lambda>r. if Some (j_id r) = key then foldl assign_job r as else r)
                           (jobs d)\<rparr>)
               else (Inl DbError, d))
      | _ \<Rightarrow> (Inl DbError, d))"
| "run DeleteJob [k] d =
     (case id_value k of
        None \<Rightarrow> (Inl DbError, d)
      | Some key \<Rightarrow>
          (Inr (map (\<lambda>r. [(''id'', Num (j_id r))])
                 (filter (\<lambda>r. Some (j_id r) = key) (jobs d))),
           d\<lparr>jobs := filter (\<lambda>r. Some (j_id r) \<noteq> key) (jobs d)\<rparr>))"
| "run stmt ps d = (Inl DbError, d)"

text \<open>\<open>db.query(sql, params)\<close>: the statement is run and counted.\<close>

definition db_query :: "statement \<Rightarrow> jsval list \<Rightarrow> db \<Rightarrow> (error + jsobject list) \<times> db" where
  "db_query stmt ps d =
     (case run stmt ps d of (res, d') \<Rightarrow> (res, d'\<lparr>queries := queries d' + 1\<rparr>))"


section \<open>The models (models/company.js, models/job.js)\<close>

text \<open>
  Every method takes the store and returns its result, or the error it throws, with the
  store as the statements left it. An object argument whose properties the method reads
  by name is given as one argument per property, typed as the documentation of the
  method says, an optional one as an option (\<open>None\<close> is \<open>undefined\<close>); the data of an
  update, whose properties are enumerated, is an object. An exception of the driver is
  not caught by any method and leaves it as it is.
\<close>

text \<open>\<open>result.rows[0]\<close>, which is \<open>undefined\<close> when no row came back.\<close>

definition first_row :: "jsobject list \<Rightarrow> jsval" where
  "first_row rows = (case rows of [] \<Rightarrow> Undefined | r # _ \<Rightarrow> Obj r)"

text \<open>
  \<open>Company.create\<close>: the duplicate check, the typed error when the handle is taken, the
  insertion, and the row that \<open>RETURNING\<close> gives.
\<close>

definition Company_create ::
  "string \<Rightarrow> string \<Rightarrow> string \<Rightarrow> int option \<Rightarrow> string option \<Rightarrow> db \<Rightarrow> (error + jsval) \<times> db" where
  "Company_create handle name description numEmployees logoUrl d =
     (case db_query SelectCompanyHandle [Str handle] d of
        (Inl e, d1) \<Rightarrow> (Inl e, d1)
      | (Inr duplicateCheck, d1) \<Rightarrow>
          if duplicateCheck \<noteq> []
          then (Inl (BadRequestError (''Duplicate company: '' @ handle)), d1)
          else (case db_query InsertCompany
                       [Str handle, Str name, Str description,
                        of_nullable Num numEmployees, of_nullable Str logoUrl] d1 of
                  (Inl e, d2) \<Rightarrow> (Inl e, d2)
                | (Inr rows, d2) \<Rightarrow> (Inr (first_row rows), d2)))"

text \<open>
  \<open>Company.findAll\<close>. The parameters and the conditions grow together, each condition
  naming the position of the parameter just pushed. The comparison of the bounds stands
  inside the branch of a present \<open>minEmployees\<close>, before anything is pushed or sent.
  A name that is absent or empty is falsy and adds nothing.
\<close>

definition Company_findAll ::
  "string option \<Rightarrow> int option \<Rightarrow> int option \<Rightarrow> db \<Rightarrow> (error + jsobject list) \<times> db" where
  "Company_findAll name minEmployees maxEmployees d =
     (case (case minEmployees of
              None \<Rightarrow> Inr ([], [])
            | Some mn \<Rightarrow>
                if (case maxEmployees of None \<Rightarrow> False | Some mx \<Rightarrow> mn > mx)
                then Inl (BadRequestError ''minEmployees cannot be greater than maxEmployees'')
                else Inr ([Num mn], [NumEmployeesGe (length [Num mn])])) of
        Inl e \<Rightarrow> (Inl e, d)
      | Inr (ps1, filterConditions1) \<Rightarrow>
          (let (ps2, filterConditions2) =
                 (case maxEmployees of
                    None \<Rightarrow> (ps1, filterConditions1)
                  | Some mx \<Rightarrow>
                      (ps1 @ [Num mx],
                       filterConditions1 @ [NumEmployeesLe (length (ps1 @ [Num mx]))]));
               (ps3, filterConditions3) =
                 (case name of
                    None \<Rightarrow> (ps2, filterConditions2)
                  | Some n \<Rightarrow>
                      if n = [] then (ps2, filterConditions2)
                      else (ps2 @ [Str (''%'' @ n @ ''%'')],
                            filterConditions2 @ [NameILike (length (ps2 @ [Str (''%'' @ n @ ''%'')]))]))
           in db_query (SelectCompanies filterConditions3) ps3 d))"

text \<open>
  \<open>Company.get\<close>: one statement, on the companies alone; a row object is truthy, so the
  not-found error is thrown exactly when no row came back.
\<close>

definition Company_get :: "string \<Rightarrow> db \<Rightarrow> (error + jsval) \<times> db" where
  "Company_get handle d =
     (case db_query SelectCompany [Str handle] d of
        (Inl e, d1) \<Rightarrow> (Inl e, d1)
      | (Inr rows, d1) \<Rightarrow>
          (case first_row rows of
             Undefined \<Rightarrow> (Inl (NotFoundError (''No company: '' @ handle)), d1)
           | company \<Rightarrow> (Inr company, d1)))"

text \<open>
  \<open>Company.update\<close>: the helper first (its error leaves before any statement), then the
  UPDATE with the handle as the parameter after the values.
\<close>

definition company_jsToSql :: "(string \<times> string) list" where
  "company_jsToSql = [(''numEmployees'', ''num_employees''), (''logoUrl'', ''logo_url'')]"

definition Company_update :: "string \<Rightarrow> jsobject \<Rightarrow> db \<Rightarrow> (error + jsval) \<times> db" where
  "Company_update handle data d =
     (case sqlForPartialUpdate data company_jsToSql of
        Inl e \<Rightarrow> (Inl e, d)
      | Inr u \<Rightarrow>
          (case db_query (UpdateCompanies (setCols u) (length (values u) + 1))
                  (values u @ [Str handle]) d of
             (Inl e, d1) \<Rightarrow> (Inl e, d1)
           | (Inr rows, d1) \<Rightarrow>
               (case first_row rows of
                  Undefined \<Rightarrow> (Inl (NotFoundError (''No company: '' @ handle)), d1)
                | company \<Rightarrow> (Inr company, d1))))"

text \<open>\<open>Company.remove\<close> returns \<open>undefined\<close>.\<close>

definition Company_remove :: "string \<Rightarrow> db \<Rightarrow> (error + jsval) \<times> db" where
  "Company_remove handle d =
     (case db_query DeleteCompany [Str handle] d of
        (Inl e, d1) \<Rightarrow> (Inl e, d1)
      | (Inr rows, d1) \<Rightarrow>
          (case first_row rows of
             Undefined \<Rightarrow> (Inl (NotFoundError (''No company: '' @ handle)), d1)
           | company \<Rightarrow> (Inr Undefined, d1)))"

text \<open>
  The \<open>id\<close> that \<open>Job.get\<close>, \<open>Job.update\<close> and \<open>Job.remove\<close> are called with: a number in the
  tests of the model, and in the routes \<open>req.params.id\<close>, the text of the path, which is
  handed on as it is. \<open>key_param\<close> is the parameter that is sent, \<open>key_text\<close> what the
  message of the error interpolates.
\<close>

datatype job_key = NumKey int | StrKey string

fun key_param :: "job_key \<Rightarrow> jsval" where
  "key_param (NumKey n) = Num n"
| "key_param (StrKey s) = Str s"

fun key_text :: "job_key \<Rightarrow> string" where
  "key_text (NumKey n) = string_of_int n"
| "key_text (StrKey s) = s"

text \<open>\<open>Job.create\<close>: the insertion and the row that \<open>RETURNING\<close> gives.\<close>

definition Job_create ::
  "string \<Rightarrow> int option \<Rightarrow> rat option \<Rightarrow> string \<Rightarrow> db \<Rightarrow> (error + jsval) \<times> db" where
  "Job_create title salary equity companyHandle d =
     (case db_query InsertJob
             [Str title, of_nullable Num salary, of_nullable Dec equity, Str companyHandle] d of
        (Inl e, d1) \<Rightarrow> (Inl e, d1)
      | (Inr rows, d1) \<Rightarrow> (Inr (first_row rows), d1))"

text \<open>
  \<open>Job.findAll\<close>: first the conditions and the parameters of the query, then the query.
  \<open>hasEquity === true\<close> pushes a condition and no parameter; a title is compared with
  \<open>undefined\<close>, so the empty title is a filter.
\<close>

definition Job_findAll_query ::
  "int option \<Rightarrow> bool option \<Rightarrow> string option \<Rightarrow> job_cond list \<times> jsval list" where
  "Job_findAll_query minSalary hasEquity title =
     (let (queryValues1, whereExpressions1) =
            (case minSalary of
               None \<Rightarrow> ([], [])
             | Some m \<Rightarrow> ([Num m], [SalaryGe (length [Num m])]));
          whereExpressions2 =
            (if hasEquity = Some True then whereExpressions1 @ [EquityPositive]
             else whereExpressions1);
          (queryValues3, whereExpressions3) =
            (case title of
               None \<Rightarrow> (queryValues1, whereExpressions2)
             | Some t \<Rightarrow>
                 (queryValues1 @ [Str (''%'' @ t @ ''%'')],
                  whereExpressions2 @
                    [TitleILike (length (queryValues1 @ [Str (''%'' @ t @ ''%'')]))]))
      in (whereExpressions3, queryValues3))"

definition Job_findAll ::
  "int option \<Rightarrow> bool option \<Rightarrow> string option \<Rightarrow> db \<Rightarrow> (error + jsobject list) \<times> db" where
  "Job_findAll minSalary hasEquity title d =
     (case Job_findAll_query minSalary hasEquity title of
        (whereExpressions, queryValues) \<Rightarrow>
          db_query (SelectJobs whereExpressions) queryValues d)"

text \<open>
  \<open>Job.get\<close>: the job, the not-found error when no row came back (an error of the driver
  is not caught), then the company of its
  \<open>companyHandle\<close>; \<open>delete job.companyHandle\<close> removes that property and
  \<open>job.company = companiesRes.rows[0]\<close> adds the company, or \<open>undefined\<close>, as the last one.
\<close>

definition Job_get :: "job_key \<Rightarrow> db \<Rightarrow> (error + jsval) \<times> db" where
  "Job_get id' d =
     (case db_query SelectJob [key_param id'] d of
        (Inl e, d1) \<Rightarrow> (Inl e, d1)
      | (Inr rows, d1) \<Rightarrow>
          (case rows of
             [] \<Rightarrow> (Inl (NotFoundError (''No job: '' @ key_text id')), d1)
           | job # _ \<Rightarrow>
               (case db_query SelectCompany [get_prop job ''companyHandle''] d1 of
                  (Inl e, d2) \<Rightarrow> (Inl e, d2)
                | (Inr companiesRes, d2) \<Rightarrow>
                    (Inr (Obj (AList.update ''company'' (first_row companiesRes)
                                 (AList.delete ''companyHandle'' job))), d2))))"

text \<open>\<open>Job.update\<close>, with no column renamed.\<close>

definition Job_update :: "job_key \<Rightarrow> jsobject \<Rightarrow> db \<Rightarrow> (error + jsval) \<times> db" where
  "Job_update id' data d =
     (case sqlForPartialUpdate data [] of
        Inl e \<Rightarrow> (Inl e, d)
      | Inr u \<Rightarrow>
          (case db_query (UpdateJobs (setCols u) (length (values u) + 1))
                  (values u @ [key_param id']) d of
             (Inl e, d1) \<Rightarrow> (Inl e, d1)
           | (Inr rows, d1) \<Rightarrow>
               (case first_row rows of
                  Undefined \<Rightarrow> (Inl (NotFoundError (''No job: '' @ key_text id')), d1)
                | job \<Rightarrow> (Inr job, d1))))"

text \<open>\<open>Job.remove\<close> returns \<open>undefined\<close>; its line on the console is left out.\<close>

definition Job_remove :: "job_key \<Rightarrow> db \<Rightarrow> (error + jsval) \<times> db" where
  "Job_remove id' d =
     (case db_query DeleteJob [key_param id'] d of
        (Inl e, d1) \<Rightarrow> (Inl e, d1)
      | (Inr rows, d1) \<Rightarrow>
          (case first_row rows of
             Undefined \<Rightarrow> (Inl (NotFoundError (''No job: '' @ key_text id')), d1)
           | job \<Rightarrow> (Inr Undefined, d1)))"


section \<open>A store to run the models on\<close>

text \<open>
  A pattern match and an order for examples: \<open>%\<close> stands for any text and \<open>_\<close> for any
  character, letters compared without case; texts ordered by their character codes.
\<close>

definition lower_char :: "char \<Rightarrow> char" where
  "lower_char c =
     (case map_of (zip ''ABCDEFGHIJKLMNOPQRSTUVWXYZ'' ''abcdefghijklmnopqrstuvwxyz'') c of
        None \<Rightarrow> c
      | Some l \<Rightarrow> l)"

fun like :: "string \<Rightarrow> string \<Rightarrow> bool" where
  "like [] [] = True"
| "like (c # cs) [] = False"
| "like [] (p # ps) = (p = CHR ''%'' \<and> like [] ps)"
| "like (c # cs) (p # ps) =
     (if p = CHR ''%'' then like (c # cs) ps \<or> like cs (p # ps)
      else (p = CHR ''_'' \<or> p = c) \<and> like cs ps)"

definition sample_ilike :: "string \<Rightarrow> string \<Rightarrow> bool" where
  "sample_ilike subject pattern = like (map lower_char subject) (map lower_char pattern)"

fun sample_collate :: "string \<Rightarrow> string \<Rightarrow> bool" where
  "sample_collate [] b = True"
| "sample_collate (x # a) [] = False"
| "sample_collate (x # a) (y # b) =
     ((of_char x :: nat) < of_char y \<or> (x = y \<and> sample_collate a b))"

text \<open>
  The store that \<open>commonBeforeAll\<close> of the route tests sets up: the companies c1, c2 and
  c3, and three jobs of c1, the last one created without equity.
\<close>

definition test_db :: db where
  "test_db =
     \<lparr>companies =
        [\<lparr>c_handle = ''c1'', c_name = ''C1'', c_description = ''Desc1'',
           c_num_employees = Some 1, c_logo_url = Some ''http://c1.img''\<rparr>,
         \<lparr>c_handle = ''c2'', c_name = ''C2'', c_description = ''Desc2'',
           c_num_employees = Some 2, c_logo_url = Some ''http://c2.img''\<rparr>,
         \<lparr>c_handle = ''c3'', c_name = ''C3'', c_description = ''Desc3'',
           c_num_employees = Some 3, c_logo_url = Some ''http://c3.img''\<rparr>],
      jobs =
        [\<lparr>j_id = 1, j_title = ''J1'', j_salary = Some 1, j_equity = Some (1 / 10),
           j_company_handle = ''c1''\<rparr>,
         \<lparr>j_id = 2, j_title = ''J2'', j_salary = Some 2, j_equity = Some (2 / 10),
           j_company_handle = ''c1''\<rparr>,
         \<lparr>j_id = 3, j_title = ''J3'', j_salary = Some 3, j_equity = None,
           j_company_handle = ''c1''\<rparr>],
      jobs_id_seq = 4,
      queries = 0,
      ilike = sample_ilike,
      collate_le = sample_collate\<rparr>"

section \<open>Notions the properties are stated with\<close>

text \<open>
  The data of an update is valid for a table when it is not empty, no two of its fields
  name the same column, and every field names a column that can be assigned, with a
  value that the column takes.
\<close>

definition valid_update ::
  "(string \<Rightarrow> jsval \<Rightarrow> bool) \<Rightarrow> (string \<times> string) list \<Rightarrow> jsobject \<Rightarrow> bool" where
  "valid_update assignable jsToSql data =
     (data \<noteq> []
      \<and> distinct (map (\<lambda>kv. column jsToSql (fst kv)) data)
      \<and> list_all (\<lambda>kv. assignable (column jsToSql (fst kv)) (snd kv)) data)"

text \<open>A listed job has equity when its \<open>equity\<close> is a decimal greater than zero.\<close>

definition has_equity :: "jsobject \<Rightarrow> bool" where
  "has_equity row = (case get_prop row ''equity'' of Dec q \<Rightarrow> 0 < q | _ \<Rightarrow> False)"

section \<open>Reading back the SET clause\<close>

text \<open>
  The clause that the helper writes is read by the store as the columns of the fields
  with the positions from 1 on.
\<close>

lemma quoted_identifier_append:
  "CHR 0x22 \<notin> set col \<Longrightarrow> quoted_identifier (col @ CHR 0x22 # r) = Some (col, r)"
  by (induction col) auto

lemma of_char_digit_char: "d < 10 \<Longrightarrow> of_char (digit_char d) = (48 + d :: nat)"
proof -
  assume "d < 10"
  then have "d \<in> set [0..<10]" by simp
  then have "d \<in> {0, 1, 2, 3, 4, 5, 6, 7, 8, 9}"
    by (simp add: upt_rec numeral_eq_Suc)
  then show ?thesis by (auto simp: digit_char_def)
qed

lemma is_digit_digit_char: "d < 10 \<Longrightarrow> is_digit (digit_char d)"
  by (simp add: is_digit_def of_char_digit_char)

lemma string_of_nat_digits: "list_all is_digit (string_of_nat n)"
  by (induction n rule: string_of_nat.induct)
     (subst string_of_nat.simps, simp add: is_digit_digit_char)

lemma string_of_nat_nonempty: "string_of_nat n \<noteq> []"
  by (subst string_of_nat.simps) simp

lemma nat_of_digits_snoc:
  "nat_of_digits (ds @ [c]) = 10 * nat_of_digits ds + (of_char c - 48)"
  by (simp add: nat_of_digits_def)

lemma nat_of_digits_string_of_nat: "nat_of_digits (string_of_nat n) = n"
proof (induction n rule: string_of_nat.induct)
  case (1 n)
  show ?case
  proof (cases "n < 10")
    case True
    then show ?thesis
      by (subst string_of_nat.simps) (simp add: nat_of_digits_def of_char_digit_char)
  next
    case False
    with 1 show ?thesis
      by (subst string_of_nat.simps) (simp add: nat_of_digits_snoc of_char_digit_char)
  qed
qed

lemma span_digits:
  "list_all is_digit ds \<Longrightarrow> r = [] \<or> \<not> is_digit (hd r) \<Longrightarrow>
     takeWhile is_digit (ds @ r) = ds \<and> dropWhile is_digit (ds @ r) = r"
  by (induction ds) (cases r; simp)+

lemma parse_assignment_render:
  assumes "CHR 0x22 \<notin> set col" and "r = [] \<or> \<not> is_digit (hd r)"
  shows "parse_assignment (CHR 0x22 # col @ CHR 0x22 # ''=$'' @ string_of_nat n @ r)
           = Some ((col, n), r)"
proof -
  have q: "quoted_identifier (col @ CHR 0x22 # ''=$'' @ string_of_nat n @ r)
             = Some (col, ''=$'' @ string_of_nat n @ r)"
    using assms(1) by (rule quoted_identifier_append)
  have d: "takeWhile is_digit (string_of_nat n @ r) = string_of_nat n"
          "dropWhile is_digit (string_of_nat n @ r) = r"
    using span_digits [OF string_of_nat_digits assms(2)] by simp_all
  show ?thesis
    unfolding parse_assignment_def
    using q d by (simp add: string_of_nat_nonempty nat_of_digits_string_of_nat)
qed

lemma join_Cons: "join sep (x # xs) = (if xs = [] then x else x @ sep @ join sep xs)"
  by (cases xs) simp_all

lemma assignments_eq_Nil [simp]: "assignments m keys i = [] \<longleftrightarrow> keys = []"
  by (cases keys) simp_all

lemma parse_set_clause_last:
  "parse_assignment s = Some (a, []) \<Longrightarrow> parse_set_clause s = Some [a]"
  by (subst parse_set_clause.simps) simp

lemma parse_set_clause_step:
  "parse_assignment s = Some (a, '', '' @ t) \<Longrightarrow> parse_set_clause t = Some as \<Longrightarrow>
     parse_set_clause s = Some (a # as)"
  by (subst parse_set_clause.simps) simp

lemma parse_set_clause_render:
  "keys \<noteq> [] \<Longrightarrow> list_all (\<lambda>k. CHR 0x22 \<notin> set (column m k)) keys \<Longrightarrow>
     parse_set_clause (join '', '' (assignments m keys i))
       = Some (zip (map (column m) keys) [i + 1 ..< i + 1 + length keys])"
proof (induction keys arbitrary: i)
  case Nil
  then show ?case by simp
next
  case (Cons k keys)
  from Cons.prems have nq: "CHR 0x22 \<notin> set (column m k)" by simp
  have upt: "[i + 1 ..< i + 1 + length (k # keys)]
               = (i + 1) # [i + 1 + 1 ..< i + 1 + 1 + length keys]"
    using upt_conv_Cons [of "Suc i" "Suc (Suc i) + length keys"] by (simp del: upt_Suc)
  have zip: "zip (map (column m) (k # keys)) [i + 1 ..< i + 1 + length (k # keys)]
               = (column m k, i + 1) # zip (map (column m) keys) [i + 1 + 1 ..< i + 1 + 1 + length keys]"
    unfolding upt by simp
  show ?case
  proof (cases "keys = []")
    case True
    have "parse_assignment (CHR 0x22 # column m k @ CHR 0x22 # ''=$'' @ string_of_nat (i + 1) @ [])
            = Some ((column m k, i + 1), [])"
      using nq by (intro parse_assignment_render) simp_all
    then have "parse_set_clause (CHR 0x22 # column m k @ CHR 0x22 # ''=$'' @ string_of_nat (i + 1) @ [])
            = Some [(column m k, i + 1)]"
      by (rule parse_set_clause_last)
    then show ?thesis
      unfolding zip using True by simp
  next
    case False
    let ?t = "join '', '' (assignments m keys (i + 1))"
    let ?s = "CHR 0x22 # column m k @ CHR 0x22 # ''=$'' @ string_of_nat (i + 1) @ '', '' @ ?t"
    have pa: "parse_assignment ?s = Some ((column m k, i + 1), '', '' @ ?t)"
      using nq by (intro parse_assignment_render) (simp_all add: is_digit_def)
    have ih: "parse_set_clause ?t
                = Some (zip (map (column m) keys) [i + 1 + 1 ..< i + 1 + 1 + length keys])"
      by (rule Cons.IH [OF False]) (use Cons.prems in simp)
    have s: "join '', '' (assignments m (k # keys) i) = ?s"
      using False by (simp add: join_Cons)
    show ?thesis
      unfolding zip s by (rule parse_set_clause_step [OF pa ih])
  qed
qed

lemma assignments_nth:
  "assignments m keys i
     = map (\<lambda>j. CHR 0x22 # column m (keys ! j) @ CHR 0x22 # ''=$'' @ string_of_nat (i + j + 1))
         [0..<length keys]"
proof (induction keys arbitrary: i)
  case Nil
  then show ?case by simp
next
  case (Cons k keys)
  have "[0..<length (k # keys)] = 0 # map Suc [0..<length keys]"
    by (simp add: upt_conv_Cons map_Suc_upt del: upt_Suc)
  then show ?case
    by (simp add: Cons.IH [of "Suc i"] del: upt_Suc)
qed

section \<open>Properties of the authorization middleware\<close>

lemma replace_bearer_Bearer: "replace_bearer (''Bearer '' @ t) = t"
  by (simp add: replace_bearer_def bearer_prefix_def)

lemma replace_bearer_bearer: "replace_bearer (''bearer '' @ t) = t"
  by (simp add: replace_bearer_def bearer_prefix_def)

lemma replace_bearer_keep: "\<not> bearer_prefix s \<Longrightarrow> replace_bearer s = s"
  by (simp add: replace_bearer_def)

text \<open>
  C8. The self-or-admin gate passes exactly when an identity is present and either is
  admin or carries the username of the path; otherwise it hands \<open>UnauthorizedError\<close> to
  \<open>next\<close>. In both cases \<open>res.locals\<close> is left as it was.
\<close>

theorem ensureCorrectUserOrAdmin_iff:
  "ensureCorrectUserOrAdmin req res =
     (if \<exists>u. user res = Some u \<and>
             (isAdmin u \<or> map_of (params req) ''username'' = Some (username u))
      then (Next, res)
      else (NextErr UnauthorizedError, res))"
  by (cases "user res") (simp_all add: ensureCorrectUserOrAdmin_def)

theorem ensureCorrectUserOrAdmin_witness:
  "ensureCorrectUserOrAdmin
       \<lparr>headers = None, params = [(''username'', ''u1'')]\<rparr>
       \<lparr>user = Some \<lparr>username = ''u1'', isAdmin = False\<rparr>\<rparr>
     = (Next, \<lparr>user = Some \<lparr>username = ''u1'', isAdmin = False\<rparr>\<rparr>)
   \<and> ensureCorrectUserOrAdmin
       \<lparr>headers = None, params = [(''username'', ''u1'')]\<rparr>
       \<lparr>user = Some \<lparr>username = ''u2'', isAdmin = False\<rparr>\<rparr>
     = (NextErr UnauthorizedError, \<lparr>user = Some \<lparr>username = ''u2'', isAdmin = False\<rparr>\<rparr>)
   \<and> ensureCorrectUserOrAdmin
       \<lparr>headers = None, params = [(''username'', ''u1'')]\<rparr>
       \<lparr>user = Some \<lparr>username = ''admin'', isAdmin = True\<rparr>\<rparr>
     = (Next, \<lparr>user = Some \<lparr>username = ''admin'', isAdmin = True\<rparr>\<rparr>)
   \<and> ensureCorrectUserOrAdmin
       \<lparr>headers = None, params = [(''username'', ''u1'')]\<rparr> \<lparr>user = None\<rparr>
     = (NextErr UnauthorizedError, \<lparr>user = None\<rparr>)"
  using ensureCorrectUserOrAdmin_iff
          [of "\<lparr>headers = None, params = [(''username'', ''u1'')]\<rparr>"
              "\<lparr>user = Some \<lparr>username = ''u1'', isAdmin = False\<rparr>\<rparr>"]
        ensureCorrectUserOrAdmin_iff
          [of "\<lparr>headers = None, params = [(''username'', ''u1'')]\<rparr>"
              "\<lparr>user = Some \<lparr>username = ''u2'', isAdmin = False\<rparr>\<rparr>"]
        ensureCorrectUserOrAdmin_iff
          [of "\<lparr>headers = None, params = [(''username'', ''u1'')]\<rparr>"
              "\<lparr>user = Some \<lparr>username = ''admin'', isAdmin = True\<rparr>\<rparr>"]
        ensureCorrectUserOrAdmin_iff
          [of "\<lparr>headers = None, params = [(''username'', ''u1'')]\<rparr>" "\<lparr>user = None\<rparr>"]
  by simp

text \<open>
  C9. Identity extraction always continues with \<open>next()\<close> and never with an error.
  It leaves \<open>res.locals\<close> as it was unless the header is present, not empty, and its
  token verifies; then, and only then, the verified payload becomes \<open>res.locals.user\<close>.
  So a request that arrives without an identity leaves with one exactly when its
  credential is valid.
\<close>

theorem authenticateJWT_soft:
  "fst (authenticateJWT verify req res) = Next
   \<and> snd (authenticateJWT verify req res) =
       (case authHeader req of
          None \<Rightarrow> res
        | Some a \<Rightarrow>
            (case (if a = [] then None else verify (token_of_header a)) of
               None \<Rightarrow> res
             | Some p \<Rightarrow> res\<lparr>user := Some p\<rparr>))
   \<and> (user res = None \<longrightarrow>
        user (snd (authenticateJWT verify req res)) =
          (case authHeader req of
             None \<Rightarrow> None
           | Some a \<Rightarrow> if a = [] then None else verify (token_of_header a)))"
  by (simp add: authenticateJWT_def split: option.splits)

theorem authenticateJWT_soft_witness:
  "user \<lparr>user = None\<rparr> = None
   \<and> authenticateJWT
         (\<lambda>t. if t = ''tok'' then Some \<lparr>username = ''u1'', isAdmin = False\<rparr> else None)
         \<lparr>headers = Some \<lparr>authorization = Some ''Bearer tok''\<rparr>, params = []\<rparr>
         \<lparr>user = None\<rparr>
       = (Next, \<lparr>user = Some \<lparr>username = ''u1'', isAdmin = False\<rparr>\<rparr>)
   \<and> authenticateJWT
         (\<lambda>t. if t = ''tok'' then Some \<lparr>username = ''u1'', isAdmin = False\<rparr> else None)
         \<lparr>headers = Some \<lparr>authorization = Some ''Bearer forged''\<rparr>, params = []\<rparr>
         \<lparr>user = None\<rparr>
       = (Next, \<lparr>user = None\<rparr>)"
  using authenticateJWT_soft
          [of "\<lambda>t. if t = ''tok'' then Some \<lparr>username = ''u1'', isAdmin = False\<rparr> else None"
              "\<lparr>headers = Some \<lparr>authorization = Some ''Bearer tok''\<rparr>, params = []\<rparr>"
              "\<lparr>user = None\<rparr>"]
        authenticateJWT_soft
          [of "\<lambda>t. if t = ''tok'' then Some \<lparr>username = ''u1'', isAdmin = False\<rparr> else None"
              "\<lparr>headers = Some \<lparr>authorization = Some ''Bearer forged''\<rparr>, params = []\<rparr>"
              "\<lparr>user = None\<rparr>"]
  by (simp add: prod_eq_iff authHeader_def token_of_header_def replace_bearer_def
        bearer_prefix_def trim_def is_ws_def)

lemma trim_decompose:
  "\<exists>l r. s = l @ trim s @ r \<and> list_all is_ws l \<and> list_all is_ws r"
proof -
  let ?m = "dropWhile is_ws s"
  have s: "s = takeWhile is_ws s @ ?m" by simp
  have "rev (dropWhile is_ws (rev ?m)) @ rev (takeWhile is_ws (rev ?m))
          = rev (takeWhile is_ws (rev ?m) @ dropWhile is_ws (rev ?m))"
    by (simp only: rev_append)
  also have "\<dots> = ?m"
    by (simp only: takeWhile_dropWhile_id rev_rev_ident)
  finally have m: "?m = trim s @ rev (takeWhile is_ws (rev ?m))"
    by (simp only: trim_def)
  have l: "list_all is_ws (takeWhile is_ws s)"
    by (auto simp: list_all_iff dest: set_takeWhileD)
  have r: "list_all is_ws (rev (takeWhile is_ws (rev ?m)))"
    by (auto simp: list_all_iff dest: set_takeWhileD)
  from s m have "s = takeWhile is_ws s @ trim s @ rev (takeWhile is_ws (rev ?m))"
    by metis
  with l r show ?thesis by blast
qed

lemma last_dropWhile_nonempty: "dropWhile P xs \<noteq> [] \<Longrightarrow> last (dropWhile P xs) = last xs"
  by (metis last_appendR takeWhile_dropWhile_id)

lemma trim_ends:
  assumes "trim s \<noteq> []"
  shows "\<not> is_ws (hd (trim s)) \<and> \<not> is_ws (last (trim s))"
proof -
  let ?m = "dropWhile is_ws s"
  let ?x = "dropWhile is_ws (rev ?m)"
  from assms have x: "?x \<noteq> []" by (simp add: trim_def)
  then have m: "?m \<noteq> []" by (metis dropWhile.simps(1) rev.simps(1))
  have "last (trim s) = hd ?x"
    using x by (simp add: trim_def last_rev)
  moreover have "\<not> is_ws (hd ?x)"
    using x by (rule hd_dropWhile)
  moreover have "hd (trim s) = last ?x"
    using x by (simp add: trim_def hd_rev)
  moreover have "last ?x = hd ?m"
    using last_dropWhile_nonempty [OF x] m by (simp add: last_rev)
  moreover have "\<not> is_ws (hd ?m)"
    using m by (rule hd_dropWhile)
  ultimately show ?thesis by simp
qed

lemma authenticateJWT_header:
  "authHeader req = Some s \<Longrightarrow> s \<noteq> [] \<Longrightarrow>
     authenticateJWT verify req res =
       (case verify (token_of_header s) of
          None \<Rightarrow> (Next, res)
        | Some p \<Rightarrow> (Next, res\<lparr>user := Some p\<rparr>))"
  by (simp add: authenticateJWT_def)

text \<open>
  C10. The header starts with the prefix exactly when it is \<open>Bearer\<close> or \<open>bearer\<close>, a
  space, and a rest; the replacement removes that one prefix and nothing else (a second
  prefix in the rest stays, and a header that does not start with the prefix is left
  as it is). The token is what is left of the result when the white space at its two
  ends is taken away, and only that: it has white space at neither end. It is this
  token that \<open>authenticateJWT\<close> verifies for a header that is present and not empty, and
  the outcome of the verification decides the identity. Hence a token sent without the
  prefix is read as the same token sent with it, and is accepted, with the same
  identity, exactly when that one is.
\<close>

theorem token_of_header_prefix:
  "bearer_prefix s = (\<exists>t. s = ''Bearer '' @ t \<or> s = ''bearer '' @ t)
   \<and> replace_bearer (''Bearer '' @ t) = t
   \<and> replace_bearer (''bearer '' @ t) = t
   \<and> (\<not> bearer_prefix s \<longrightarrow> replace_bearer s = s)
   \<and> token_of_header s = trim (replace_bearer s)
   \<and> (\<exists>l r. replace_bearer s = l @ token_of_header s @ r \<and> list_all is_ws l \<and> list_all is_ws r)
   \<and> (token_of_header s \<noteq> [] \<longrightarrow>
         \<not> is_ws (hd (token_of_header s)) \<and> \<not> is_ws (last (token_of_header s)))
   \<and> (authHeader req = Some s \<and> s \<noteq> [] \<longrightarrow>
         authenticateJWT verify req res =
           (case verify (token_of_header s) of
              None \<Rightarrow> (Next, res)
            | Some p \<Rightarrow> (Next, res\<lparr>user := Some p\<rparr>)))
   \<and> (\<not> bearer_prefix t \<longrightarrow>
         token_of_header (''Bearer '' @ t) = token_of_header t
       \<and> token_of_header (''bearer '' @ t) = token_of_header t)
   \<and> (\<not> bearer_prefix t \<and> t \<noteq> [] \<longrightarrow>
         authenticateJWT verify (req\<lparr>headers := Some \<lparr>authorization = Some (''Bearer '' @ t)\<rparr>\<rparr>) res
       = authenticateJWT verify (req\<lparr>headers := Some \<lparr>authorization = Some t\<rparr>\<rparr>) res)
   \<and> (\<not> bearer_prefix t \<and> t \<noteq> [] \<and> verify (trim t) = Some p \<longrightarrow>
         authenticateJWT verify (req\<lparr>headers := Some \<lparr>authorization = Some t\<rparr>\<rparr>) res
           = (Next, res\<lparr>user := Some p\<rparr>)
       \<and> authenticateJWT verify (req\<lparr>headers := Some \<lparr>authorization = Some (''Bearer '' @ t)\<rparr>\<rparr>) res
           = (Next, res\<lparr>user := Some p\<rparr>)
       \<and> authenticateJWT verify (req\<lparr>headers := Some \<lparr>authorization = Some (''bearer '' @ t)\<rparr>\<rparr>) res
           = (Next, res\<lparr>user := Some p\<rparr>))"
proof -
  have prefix: "bearer_prefix s = (\<exists>t. s = ''Bearer '' @ t \<or> s = ''bearer '' @ t)"
  proof
    assume "bearer_prefix s"
    then have "s = ''Bearer '' @ drop 7 s \<or> s = ''bearer '' @ drop 7 s"
      unfolding bearer_prefix_def by (metis append_take_drop_id)
    then show "\<exists>t. s = ''Bearer '' @ t \<or> s = ''bearer '' @ t" by blast
  next
    assume "\<exists>t. s = ''Bearer '' @ t \<or> s = ''bearer '' @ t"
    then show "bearer_prefix s" by (auto simp: bearer_prefix_def)
  qed
  have keep: "\<not> bearer_prefix s \<longrightarrow> replace_bearer s = s"
    by (simp add: replace_bearer_def)
  have dec: "\<exists>l r. replace_bearer s = l @ token_of_header s @ r \<and> list_all is_ws l \<and> list_all is_ws r"
    unfolding token_of_header_def by (rule trim_decompose)
  have ends: "token_of_header s \<noteq> [] \<longrightarrow>
         \<not> is_ws (hd (token_of_header s)) \<and> \<not> is_ws (last (token_of_header s))"
    unfolding token_of_header_def using trim_ends by blast
  have verified: "authHeader req = Some s \<and> s \<noteq> [] \<longrightarrow>
         authenticateJWT verify req res =
           (case verify (token_of_header s) of
              None \<Rightarrow> (Next, res)
            | Some p \<Rightarrow> (Next, res\<lparr>user := Some p\<rparr>))"
    using authenticateJWT_header by blast
  have raw: "\<not> bearer_prefix t \<longrightarrow>
         token_of_header (''Bearer '' @ t) = token_of_header t
       \<and> token_of_header (''bearer '' @ t) = token_of_header t"
    unfolding token_of_header_def replace_bearer_Bearer replace_bearer_bearer
    by (simp add: replace_bearer_keep)
  have same: "\<not> bearer_prefix t \<and> t \<noteq> [] \<longrightarrow>
         authenticateJWT verify (req\<lparr>headers := Some \<lparr>authorization = Some (''Bearer '' @ t)\<rparr>\<rparr>) res
       = authenticateJWT verify (req\<lparr>headers := Some \<lparr>authorization = Some t\<rparr>\<rparr>) res"
    using raw unfolding authenticateJWT_def authHeader_def by simp
  have accepted: "\<not> bearer_prefix t \<and> t \<noteq> [] \<and> verify (trim t) = Some p \<longrightarrow>
         authenticateJWT verify (req\<lparr>headers := Some \<lparr>authorization = Some t\<rparr>\<rparr>) res
           = (Next, res\<lparr>user := Some p\<rparr>)
       \<and> authenticateJWT verify (req\<lparr>headers := Some \<lparr>authorization = Some (''Bearer '' @ t)\<rparr>\<rparr>) res
           = (Next, res\<lparr>user := Some p\<rparr>)
       \<and> authenticateJWT verify (req\<lparr>headers := Some \<lparr>authorization = Some (''bearer '' @ t)\<rparr>\<rparr>) res
           = (Next, res\<lparr>user := Some p\<rparr>)"
  proof (intro impI, elim conjE)
    assume t: "\<not> bearer_prefix t" "t \<noteq> []" and v: "verify (trim t) = Some p"
    have tok: "token_of_header t = trim t"
      "token_of_header (''Bearer '' @ t) = trim t" "token_of_header (''bearer '' @ t) = trim t"
      using t(1) raw by (simp_all add: token_of_header_def replace_bearer_keep)
    show "authenticateJWT verify (req\<lparr>headers := Some \<lparr>authorization = Some t\<rparr>\<rparr>) res
           = (Next, res\<lparr>user := Some p\<rparr>)
       \<and> authenticateJWT verify (req\<lparr>headers := Some \<lparr>authorization = Some (''Bearer '' @ t)\<rparr>\<rparr>) res
           = (Next, res\<lparr>user := Some p\<rparr>)
       \<and> authenticateJWT verify (req\<lparr>headers := Some \<lparr>authorization = Some (''bearer '' @ t)\<rparr>\<rparr>) res
           = (Next, res\<lparr>user := Some p\<rparr>)"
      using t(2) v
      by (simp add: authenticateJWT_header [where s = t] authenticateJWT_header [where s = "''Bearer '' @ t"]
            authenticateJWT_header [where s = "''bearer '' @ t"] authHeader_def tok [simplified])
  qed
  show ?thesis
    using prefix keep dec ends verified raw same accepted
    by (simp only: replace_bearer_Bearer replace_bearer_bearer token_of_header_def simp_thms)
qed

theorem token_of_header_prefix_witness:
  "\<not> bearer_prefix ''tok'' \<and> ''tok'' \<noteq> []
   \<and> token_of_header ''Bearer tok'' = ''tok''
   \<and> token_of_header ''tok'' = ''tok''
   \<and> token_of_header ''bearer  tok '' = ''tok''
   \<and> token_of_header ''Bearer Bearer tok'' = ''Bearer tok''
   \<and> token_of_header '' Bearer tok'' = ''Bearer tok''
   \<and> authenticateJWT
        (\<lambda>t. if t = ''tok'' then Some \<lparr>username = ''u1'', isAdmin = False\<rparr> else None)
        \<lparr>headers = Some \<lparr>authorization = Some ''Bearer tok''\<rparr>, params = []\<rparr>
        \<lparr>user = None\<rparr>
     = (Next, \<lparr>user = Some \<lparr>username = ''u1'', isAdmin = False\<rparr>\<rparr>)
   \<and> authenticateJWT
        (\<lambda>t. if t = ''tok'' then Some \<lparr>username = ''u1'', isAdmin = False\<rparr> else None)
        \<lparr>headers = Some \<lparr>authorization = Some ''tok''\<rparr>, params = []\<rparr>
        \<lparr>user = None\<rparr>
     = (Next, \<lparr>user = Some \<lparr>username = ''u1'', isAdmin = False\<rparr>\<rparr>)
   \<and> authenticateJWT
        (\<lambda>t. if t = ''tok'' then Some \<lparr>username = ''u1'', isAdmin = False\<rparr> else None)
        \<lparr>headers = Some \<lparr>authorization = Some ''Bearer Bearer tok''\<rparr>, params = []\<rparr>
        \<lparr>user = None\<rparr>
     = (Next, \<lparr>user = None\<rparr>)"
proof -
  let ?v = "\<lambda>t. if t = ''tok'' then Some \<lparr>username = ''u1'', isAdmin = False\<rparr> else None"
  have np: "\<not> bearer_prefix ''tok''" by (simp add: bearer_prefix_def)
  have tr: "trim ''tok'' = ''tok''" "trim ''Bearer tok'' = ''Bearer tok''"
    "trim '' tok '' = ''tok''" "trim '' Bearer tok'' = ''Bearer tok''"
    by (simp_all add: trim_def is_ws_def)
  have ah: "authHeader \<lparr>headers = Some \<lparr>authorization = Some ''Bearer Bearer tok''\<rparr>, params = []\<rparr>
              = Some ''Bearer Bearer tok''"
    by (simp add: authHeader_def)
  show ?thesis
    using token_of_header_prefix
            [where s = "''tok''" and t = "''tok''" and verify = ?v
               and req = "\<lparr>headers = None, params = []\<rparr>" and res = "\<lparr>user = None\<rparr>"
               and p = "\<lparr>username = ''u1'', isAdmin = False\<rparr>"]
          token_of_header_prefix [where s = "''bearer  tok ''" and t = "'' tok ''"]
          token_of_header_prefix
            [where s = "''Bearer Bearer tok''" and t = "''Bearer tok''" and verify = ?v
               and req = "\<lparr>headers = Some \<lparr>authorization = Some ''Bearer Bearer tok''\<rparr>, params = []\<rparr>"
               and res = "\<lparr>user = None\<rparr>"]
          token_of_header_prefix [where s = "'' Bearer tok''" and t = "''tok''"]
          np tr ah
    by (simp add: bearer_prefix_def)
qed


section \<open>Properties of the partial-update helper\<close>

text \<open>
  C3. For a non-empty mapping, \<open>sqlForPartialUpdate\<close> succeeds; \<open>setCols\<close> is the
  assignments of the fields, one for each, in the order of the input, joined by a comma
  and a space; the assignment of the field at index \<open>i\<close> is its column between double
  quotes, \<open>=$\<close>, and the position \<open>i + 1\<close>, where the column is the name the column-name
  mapping gives the field, or the field's own name when it gives none; \<open>values\<close> is the
  values of the fields in the same order. Read back as the store reads it, the clause
  is exactly these columns with the positions 1, 2, ... (column names have no double
  quote in them).
\<close>

theorem sqlForPartialUpdate_assignments:
  assumes "dataToUpdate \<noteq> []"
  shows "\<exists>u. sqlForPartialUpdate dataToUpdate jsToSql = Inr u
     \<and> setCols u =
         join '', ''
           (map (\<lambda>i. CHR 0x22 #
                      (case map_of jsToSql (fst (dataToUpdate ! i)) of
                         None \<Rightarrow> fst (dataToUpdate ! i)
                       | Some c \<Rightarrow> c)
                      @ CHR 0x22 # ''=$'' @ string_of_nat (i + 1))
              [0..<length dataToUpdate])
     \<and> values u = map snd dataToUpdate
     \<and> length (values u) = length dataToUpdate
     \<and> (list_all (\<lambda>kv. CHR 0x22 \<notin> set (column jsToSql (fst kv))) dataToUpdate \<longrightarrow>
          parse_set_clause (setCols u)
            = Some (zip (map (\<lambda>kv. column jsToSql (fst kv)) dataToUpdate)
                        [1..<length dataToUpdate + 1]))"
proof -
  let ?keys = "map fst dataToUpdate"
  let ?u = "\<lparr>setCols = join '', '' (assignments jsToSql ?keys 0), values = map snd dataToUpdate\<rparr>"
  have u: "sqlForPartialUpdate dataToUpdate jsToSql = Inr ?u"
    using assms by (simp add: sqlForPartialUpdate_def)
  have cols: "setCols ?u =
         join '', ''
           (map (\<lambda>i. CHR 0x22 #
                      (case map_of jsToSql (fst (dataToUpdate ! i)) of
                         None \<Rightarrow> fst (dataToUpdate ! i)
                       | Some c \<Rightarrow> c)
                      @ CHR 0x22 # ''=$'' @ string_of_nat (i + 1))
              [0..<length dataToUpdate])"
  proof -
    have "map (\<lambda>j. CHR 0x22 # column jsToSql (?keys ! j) @ CHR 0x22 # ''=$'' @ string_of_nat (0 + j + 1))
            [0..<length ?keys]
        = map (\<lambda>i. CHR 0x22 #
                      (case map_of jsToSql (fst (dataToUpdate ! i)) of
                         None \<Rightarrow> fst (dataToUpdate ! i)
                       | Some c \<Rightarrow> c)
                      @ CHR 0x22 # ''=$'' @ string_of_nat (i + 1))
            [0..<length dataToUpdate]"
      by (auto simp: column_def split: option.splits)
    then show ?thesis
      by (simp only: partial_update.simps assignments_nth)
  qed
  have rb: "parse_set_clause (setCols ?u)
            = Some (zip (map (\<lambda>kv. column jsToSql (fst kv)) dataToUpdate)
                        [1..<length dataToUpdate + 1])"
    if "list_all (\<lambda>kv. CHR 0x22 \<notin> set (column jsToSql (fst kv))) dataToUpdate"
    using parse_set_clause_render [of ?keys jsToSql 0] assms that
    by (simp add: list_all_iff comp_def)
  show ?thesis
    using u cols rb by simp
qed

theorem sqlForPartialUpdate_assignments_witness:
  "[(''f1'', Str ''v1''), (''jsF2'', Str ''v2'')] \<noteq> []
   \<and> sqlForPartialUpdate [(''f1'', Str ''v1''), (''jsF2'', Str ''v2'')] [(''jsF2'', ''f2'')]
       = Inr \<lparr>setCols = [CHR 0x22] @ ''f1'' @ [CHR 0x22] @ ''=$1, '' @ [CHR 0x22] @ ''f2'' @ [CHR 0x22] @ ''=$2'',
               values = [Str ''v1'', Str ''v2'']\<rparr>
   \<and> parse_set_clause ([CHR 0x22] @ ''f1'' @ [CHR 0x22] @ ''=$1, '' @ [CHR 0x22] @ ''f2'' @ [CHR 0x22] @ ''=$2'')
       = Some [(''f1'', 1), (''f2'', 2)]"
proof -
  have ne: "[(''f1'', Str ''v1''), (''jsF2'', Str ''v2'')] \<noteq> []" by simp
  have s: "string_of_nat (Suc 0) = ''1''" "string_of_nat (Suc (Suc 0)) = ''2''"
    by (simp_all add: string_of_nat.simps digit_char_def)
  show ?thesis
    using sqlForPartialUpdate_assignments [OF ne, of "[(''jsF2'', ''f2'')]"]
    by (auto simp: column_def s upt_rec [of 0] upt_rec [of 1] upt_rec[of "Suc 0"] upt_rec [of 2]
          intro!: partial_update.equality)
qed


text \<open>
  C4. With an empty mapping the helper fails with the bad-request error "No data", and
  so does the update of a company and of a job, before any statement is sent: the store
  is as it was.
\<close>

theorem update_without_data:
  "sqlForPartialUpdate [] jsToSql = Inl (BadRequestError ''No data'')
   \<and> Company_update handle' [] d = (Inl (BadRequestError ''No data''), d)
   \<and> Job_update id' [] d = (Inl (BadRequestError ''No data''), d)"
  by (simp add: sqlForPartialUpdate_def Company_update_def Job_update_def)


theorem update_without_data_witness:
  "Company_update ''c1'' [] test_db = (Inl (BadRequestError ''No data''), test_db)
   \<and> Job_update (NumKey 1) [] test_db = (Inl (BadRequestError ''No data''), test_db)"
  using update_without_data [where handle' = "''c1''" and d = test_db and id' = "NumKey 1"]
  by simp

section \<open>Properties of the searches\<close>

lemma set_insert_row: "set (insert_row le key r xs) = insert r (set xs)"
  by (induction xs) auto

lemma set_order_by: "set (order_by le key xs) = set xs"
  by (induction xs) (simp_all add: order_by_def set_insert_row)

lemma param_simps:
  "param ps 0 = None" "param [] n = None"
  "param (v # ps) (Suc n) = (if n = 0 then Some v else param ps n)"
  by (auto simp: param_def)


text \<open>
  C5. When both bounds are given and the lower one is greater than the upper one,
  \<open>Company.findAll\<close> fails with the bad-request error and the store has been sent nothing.
  In every other case it sends its one query and returns the rows.
\<close>

theorem Company_findAll_bounds:
  "((\<exists>mn mx. minEmployees = Some mn \<and> maxEmployees = Some mx \<and> mx < mn) \<longrightarrow>
      Company_findAll name minEmployees maxEmployees d
        = (Inl (BadRequestError ''minEmployees cannot be greater than maxEmployees''), d))
   \<and> (\<not> (\<exists>mn mx. minEmployees = Some mn \<and> maxEmployees = Some mx \<and> mx < mn) \<longrightarrow>
      (\<exists>rows. Company_findAll name minEmployees maxEmployees d
                = (Inr rows, d\<lparr>queries := queries d + 1\<rparr>)))"
  by (cases minEmployees; cases maxEmployees; cases name)
     (auto simp: Company_findAll_def db_query_def param_simps)


theorem Company_findAll_bounds_witness:
  "Company_findAll None (Some 3) (Some 2) test_db
     = (Inl (BadRequestError ''minEmployees cannot be greater than maxEmployees''), test_db)
   \<and> Company_findAll (Some ''c'') (Some 2) (Some 3) test_db
     = (Inr [[(''handle'', Str ''c2''), (''name'', Str ''C2''), (''description'', Str ''Desc2''),
              (''numEmployees'', Num 2), (''logoUrl'', Str ''http://c2.img'')],
             [(''handle'', Str ''c3''), (''name'', Str ''C3''), (''description'', Str ''Desc3''),
              (''numEmployees'', Num 3), (''logoUrl'', Str ''http://c3.img'')]],
        test_db\<lparr>queries := 1\<rparr>)"
proof -
  have rows: "fst (Company_findAll (Some ''c'') (Some 2) (Some 3) test_db)
     = Inr [[(''handle'', Str ''c2''), (''name'', Str ''C2''), (''description'', Str ''Desc2''),
              (''numEmployees'', Num 2), (''logoUrl'', Str ''http://c2.img'')],
             [(''handle'', Str ''c3''), (''name'', Str ''C3''), (''description'', Str ''Desc3''),
              (''numEmployees'', Num 3), (''logoUrl'', Str ''http://c3.img'')]]"
    by (simp add: Company_findAll_def db_query_def test_db_def param_simps order_by_def
          company_obj_def of_nullable_def sample_ilike_def lower_char_def)
  show ?thesis
    using Company_findAll_bounds
            [where minEmployees = "Some 3" and maxEmployees = "Some 2" and name = None
               and d = test_db]
          Company_findAll_bounds
            [where minEmployees = "Some 2" and maxEmployees = "Some 3" and name = "Some ''c''"
               and d = test_db]
          rows
    by (auto simp: test_db_def)
qed

lemma has_equity_listing:
  "has_equity (job_listing jc) = job_cond_holds d ps (fst jc) EquityPositive"
  by (cases "j_equity (fst jc)")
     (simp_all add: has_equity_def job_listing_def job_obj_def get_prop_def of_nullable_def)

lemma Job_findAll_query_ok:
  "list_all (job_cond_ok (snd (Job_findAll_query minSalary hasEquity title)))
     (fst (Job_findAll_query minSalary hasEquity title))"
  by (cases minSalary; cases title) (simp_all add: Job_findAll_query_def param_simps)

lemma Job_findAll_query_eq:
  "Job_findAll_query minSalary hasEquity title =
     ((case minSalary of None \<Rightarrow> [] | Some m \<Rightarrow> [SalaryGe 1])
        @ (if hasEquity = Some True then [EquityPositive] else [])
        @ (case title of
             None \<Rightarrow> []
           | Some t \<Rightarrow> [TitleILike (case minSalary of None \<Rightarrow> 1 | Some m \<Rightarrow> 2)]),
      (case minSalary of None \<Rightarrow> [] | Some m \<Rightarrow> [Num m])
        @ (case title of None \<Rightarrow> [] | Some t \<Rightarrow> [Str (''%'' @ t @ ''%'')]))"
  by (cases minSalary; cases title) (simp_all add: Job_findAll_query_def)

lemma Job_findAll_rows:
  "Job_findAll minSalary hasEquity title d =
     (Inr (map job_listing
             (order_by (collate_le d) (\<lambda>jc. j_title (fst jc))
                (filter (\<lambda>jc. list_all
                                 (job_cond_holds d
                                    (snd (Job_findAll_query minSalary hasEquity title)) (fst jc))
                                 (fst (Job_findAll_query minSalary hasEquity title)))
                   (concat (map (left_join_company d) (jobs d)))))),
      d\<lparr>queries := queries d + 1\<rparr>)"
  using Job_findAll_query_ok [of minSalary hasEquity title]
  by (cases "Job_findAll_query minSalary hasEquity title")
     (simp add: Job_findAll_def db_query_def)

lemma holds_without_equity:
  "list_all (job_cond_holds d (snd (Job_findAll_query minSalary None title)) r)
     (fst (Job_findAll_query minSalary None title))
   = ((case minSalary of
         None \<Rightarrow> True
       | Some m \<Rightarrow> (case j_salary r of None \<Rightarrow> False | Some s \<Rightarrow> m \<le> s))
      \<and> (case title of None \<Rightarrow> True | Some t \<Rightarrow> ilike d (j_title r) (''%'' @ t @ ''%'')))"
  by (cases minSalary; cases title)
     (simp_all add: Job_findAll_query_def param_simps split: option.splits)

lemma holds_with_equity:
  "list_all (job_cond_holds d (snd (Job_findAll_query minSalary (Some True) title)) r)
     (fst (Job_findAll_query minSalary (Some True) title))
   = (list_all (job_cond_holds d (snd (Job_findAll_query minSalary None title)) r)
        (fst (Job_findAll_query minSalary None title))
      \<and> job_cond_holds d ps r EquityPositive)"
  by (cases minSalary; cases title)
     (auto simp: Job_findAll_query_def param_simps split: option.splits)

text \<open>
  C6. \<open>hasEquity\<close> false is \<open>hasEquity\<close> omitted, and then the conditions are those of the
  salary and of the title alone, with no condition on the equity: the search returns
  every listed job that meets these two. \<open>hasEquity\<close> true sends the same parameters and
  the same conditions with one more, whose text is \<open>equity > 0\<close> and which names no
  parameter; the jobs it returns are those of the search without it whose equity is a
  decimal greater than zero, so neither a job with equity "0" nor one with null.
\<close>

theorem Job_findAll_hasEquity:
  "Job_findAll minSalary (Some False) title d = Job_findAll minSalary None title d
   \<and> Job_findAll_query minSalary (Some False) title = Job_findAll_query minSalary None title
   \<and> EquityPositive \<notin> set (fst (Job_findAll_query minSalary None title))
   \<and> fst (Job_findAll_query minSalary None title)
       = (case minSalary of None \<Rightarrow> [] | Some m \<Rightarrow> [SalaryGe 1])
          @ (case title of
               None \<Rightarrow> []
             | Some t \<Rightarrow> [TitleILike (case minSalary of None \<Rightarrow> 1 | Some m \<Rightarrow> 2)])
   \<and> fst (Job_findAll_query minSalary (Some True) title)
       = (case minSalary of None \<Rightarrow> [] | Some m \<Rightarrow> [SalaryGe 1])
          @ [EquityPositive]
          @ (case title of
               None \<Rightarrow> []
             | Some t \<Rightarrow> [TitleILike (case minSalary of None \<Rightarrow> 1 | Some m \<Rightarrow> 2)])
   \<and> snd (Job_findAll_query minSalary None title)
       = (case minSalary of None \<Rightarrow> [] | Some m \<Rightarrow> [Num m])
          @ (case title of None \<Rightarrow> [] | Some t \<Rightarrow> [Str (''%'' @ t @ ''%'')])
   \<and> snd (Job_findAll_query minSalary (Some True) title) = snd (Job_findAll_query minSalary None title)
   \<and> set (fst (Job_findAll_query minSalary (Some True) title))
       = insert EquityPositive (set (fst (Job_findAll_query minSalary None title)))
   \<and> job_cond_sql EquityPositive = ''equity > 0''
   \<and> (\<exists>unfiltered filtered.
         Job_findAll minSalary None title d = (Inr unfiltered, d\<lparr>queries := queries d + 1\<rparr>)
       \<and> Job_findAll minSalary (Some True) title d = (Inr filtered, d\<lparr>queries := queries d + 1\<rparr>)
       \<and> set unfiltered
           = job_listing `
               {jc \<in> set (concat (map (left_join_company d) (jobs d))).
                  (case minSalary of
                     None \<Rightarrow> True
                   | Some m \<Rightarrow> (case j_salary (fst jc) of None \<Rightarrow> False | Some s \<Rightarrow> m \<le> s))
                  \<and> (case title of
                       None \<Rightarrow> True
                     | Some t \<Rightarrow> ilike d (j_title (fst jc)) (''%'' @ t @ ''%''))}
       \<and> set filtered = {row \<in> set unfiltered. has_equity row})"
proof -
  have same: "Job_findAll_query minSalary (Some False) title = Job_findAll_query minSalary None title"
    by (simp add: Job_findAll_query_eq)
  then have same': "Job_findAll minSalary (Some False) title d = Job_findAll minSalary None title d"
    by (simp add: Job_findAll_def)
  have none: "fst (Job_findAll_query minSalary None title)
       = (case minSalary of None \<Rightarrow> [] | Some m \<Rightarrow> [SalaryGe 1])
          @ (case title of
               None \<Rightarrow> []
             | Some t \<Rightarrow> [TitleILike (case minSalary of None \<Rightarrow> 1 | Some m \<Rightarrow> 2)])"
    "snd (Job_findAll_query minSalary None title)
       = (case minSalary of None \<Rightarrow> [] | Some m \<Rightarrow> [Num m])
          @ (case title of None \<Rightarrow> [] | Some t \<Rightarrow> [Str (''%'' @ t @ ''%'')])"
    by (simp_all add: Job_findAll_query_eq)
  have true: "fst (Job_findAll_query minSalary (Some True) title)
       = (case minSalary of None \<Rightarrow> [] | Some m \<Rightarrow> [SalaryGe 1])
          @ [EquityPositive]
          @ (case title of
               None \<Rightarrow> []
             | Some t \<Rightarrow> [TitleILike (case minSalary of None \<Rightarrow> 1 | Some m \<Rightarrow> 2)])"
    "snd (Job_findAll_query minSalary (Some True) title) = snd (Job_findAll_query minSalary None title)"
    by (simp_all add: Job_findAll_query_eq)
  have absent: "EquityPositive \<notin> set (fst (Job_findAll_query minSalary None title))"
    by (simp add: Job_findAll_query_eq split: option.splits)
  have conds: "set (fst (Job_findAll_query minSalary (Some True) title))
       = insert EquityPositive (set (fst (Job_findAll_query minSalary None title)))"
    by (auto simp: Job_findAll_query_eq split: option.splits)
  let ?joined = "concat (map (left_join_company d) (jobs d))"
  let ?rows = "\<lambda>hasEquity. map job_listing
                  (order_by (collate_le d) (\<lambda>jc. j_title (fst jc))
                     (filter (\<lambda>jc. list_all
                                 (job_cond_holds d
                                    (snd (Job_findAll_query minSalary hasEquity title)) (fst jc))
                                 (fst (Job_findAll_query minSalary hasEquity title)))
                        ?joined))"
  have r: "Job_findAll minSalary None title d = (Inr (?rows None), d\<lparr>queries := queries d + 1\<rparr>)"
    by (rule Job_findAll_rows)
  have r': "Job_findAll minSalary (Some True) title d
              = (Inr (?rows (Some True)), d\<lparr>queries := queries d + 1\<rparr>)"
    by (rule Job_findAll_rows)
  have unf: "set (?rows None)
           = job_listing `
               {jc \<in> set ?joined.
                  (case minSalary of
                     None \<Rightarrow> True
                   | Some m \<Rightarrow> (case j_salary (fst jc) of None \<Rightarrow> False | Some s \<Rightarrow> m \<le> s))
                  \<and> (case title of
                       None \<Rightarrow> True
                     | Some t \<Rightarrow> ilike d (j_title (fst jc)) (''%'' @ t @ ''%''))}"
    by (simp add: set_order_by holds_without_equity)
  have fil: "set (?rows (Some True)) = {row \<in> set (?rows None). has_equity row}"
    by (auto simp: set_order_by holds_with_equity [where ps = "[]"]
          has_equity_listing [where d = d and ps = "[]"])
  have ex: "\<exists>unfiltered filtered.
         Job_findAll minSalary None title d = (Inr unfiltered, d\<lparr>queries := queries d + 1\<rparr>)
       \<and> Job_findAll minSalary (Some True) title d = (Inr filtered, d\<lparr>queries := queries d + 1\<rparr>)
       \<and> set unfiltered
           = job_listing `
               {jc \<in> set ?joined.
                  (case minSalary of
                     None \<Rightarrow> True
                   | Some m \<Rightarrow> (case j_salary (fst jc) of None \<Rightarrow> False | Some s \<Rightarrow> m \<le> s))
                  \<and> (case title of
                       None \<Rightarrow> True
                     | Some t \<Rightarrow> ilike d (j_title (fst jc)) (''%'' @ t @ ''%''))}
       \<and> set filtered = {row \<in> set unfiltered. has_equity row}"
    using r r' unf fil by blast
  have sql: "job_cond_sql EquityPositive = ''equity > 0''" by simp
  show ?thesis
    by (intro conjI same' same absent none true conds sql ex)
qed

lemma findAll_eval:
  "left_join_company d j =
     (case filter (\<lambda>c. c_handle c = j_company_handle j) (companies d) of
        [] \<Rightarrow> [(j, Null)]
      | cs \<Rightarrow> map (\<lambda>c. (j, Str (c_name c))) cs)"
  "job_listing jc = job_obj (fst jc) @ [(''companyName'', snd jc)]"
  "order_by le key rows = foldr (insert_row le key) rows []"
  by (simp_all add: left_join_company_def job_listing_def order_by_def)

theorem Job_findAll_hasEquity_witness:
  "fst (Job_findAll (Some 2) None None
          (test_db\<lparr>jobs := jobs test_db @
             [\<lparr>j_id = 4, j_title = ''J4'', j_salary = Some 4, j_equity = Some 0,
               j_company_handle = ''c1''\<rparr>]\<rparr>))
     = Inr [[(''id'', Num 2), (''title'', Str ''J2''), (''salary'', Num 2),
             (''equity'', Dec (2 / 10)), (''companyHandle'', Str ''c1''),
             (''companyName'', Str ''C1'')],
            [(''id'', Num 3), (''title'', Str ''J3''), (''salary'', Num 3),
             (''equity'', Null), (''companyHandle'', Str ''c1''),
             (''companyName'', Str ''C1'')],
            [(''id'', Num 4), (''title'', Str ''J4''), (''salary'', Num 4),
             (''equity'', Dec 0), (''companyHandle'', Str ''c1''),
             (''companyName'', Str ''C1'')]]
   \<and> fst (Job_findAll (Some 2) (Some True) None
          (test_db\<lparr>jobs := jobs test_db @
             [\<lparr>j_id = 4, j_title = ''J4'', j_salary = Some 4, j_equity = Some 0,
               j_company_handle = ''c1''\<rparr>]\<rparr>))
     = Inr [[(''id'', Num 2), (''title'', Str ''J2''), (''salary'', Num 2),
             (''equity'', Dec (2 / 10)), (''companyHandle'', Str ''c1''),
             (''companyName'', Str ''C1'')]]
   \<and> set [[(''id'', Num 2), (''title'', Str ''J2''), (''salary'', Num 2),
             (''equity'', Dec (2 / 10)), (''companyHandle'', Str ''c1''),
             (''companyName'', Str ''C1'')]]
     = {row \<in> set [[(''id'', Num 2), (''title'', Str ''J2''), (''salary'', Num 2),
             (''equity'', Dec (2 / 10)), (''companyHandle'', Str ''c1''),
             (''companyName'', Str ''C1'')],
            [(''id'', Num 3), (''title'', Str ''J3''), (''salary'', Num 3),
             (''equity'', Null), (''companyHandle'', Str ''c1''),
             (''companyName'', Str ''C1'')],
            [(''id'', Num 4), (''title'', Str ''J4''), (''salary'', Num 4),
             (''equity'', Dec 0), (''companyHandle'', Str ''c1''),
             (''companyName'', Str ''C1'')]]. has_equity row}
   \<and> Job_findAll_query (Some 2) None None = ([SalaryGe 1], [Num 2])
   \<and> Job_findAll_query (Some 2) (Some True) None = ([SalaryGe 1, EquityPositive], [Num 2])"
proof -
  let ?d = "test_db\<lparr>jobs := jobs test_db @
             [\<lparr>j_id = 4, j_title = ''J4'', j_salary = Some 4, j_equity = Some 0,
               j_company_handle = ''c1''\<rparr>]\<rparr>"
  have q: "Job_findAll_query (Some 2) None None = ([SalaryGe 1], [Num 2])"
    "Job_findAll_query (Some 2) (Some True) None = ([SalaryGe 1, EquityPositive], [Num 2])"
    by (simp_all add: Job_findAll_query_def)
  have all: "fst (Job_findAll (Some 2) None None ?d)
     = Inr [[(''id'', Num 2), (''title'', Str ''J2''), (''salary'', Num 2),
             (''equity'', Dec (2 / 10)), (''companyHandle'', Str ''c1''),
             (''companyName'', Str ''C1'')],
            [(''id'', Num 3), (''title'', Str ''J3''), (''salary'', Num 3),
             (''equity'', Null), (''companyHandle'', Str ''c1''),
             (''companyName'', Str ''C1'')],
            [(''id'', Num 4), (''title'', Str ''J4''), (''salary'', Num 4),
             (''equity'', Dec 0), (''companyHandle'', Str ''c1''),
             (''companyName'', Str ''C1'')]]"
    by (simp add: Job_findAll_def q db_query_def test_db_def param_simps findAll_eval
          job_obj_def of_nullable_def)
  from Job_findAll_hasEquity [where minSalary = "Some 2" and title = None and d = ?d]
  obtain unfiltered filtered where
    u: "Job_findAll (Some 2) None None ?d = (Inr unfiltered, ?d\<lparr>queries := queries ?d + 1\<rparr>)"
    and f: "Job_findAll (Some 2) (Some True) None ?d
              = (Inr filtered, ?d\<lparr>queries := queries ?d + 1\<rparr>)"
    and s: "set filtered = {row \<in> set unfiltered. has_equity row}"
    by blast
  have some: "fst (Job_findAll (Some 2) (Some True) None ?d)
     = Inr [[(''id'', Num 2), (''title'', Str ''J2''), (''salary'', Num 2),
             (''equity'', Dec (2 / 10)), (''companyHandle'', Str ''c1''),
             (''companyName'', Str ''C1'')]]"
    by (simp add: Job_findAll_def q db_query_def test_db_def param_simps findAll_eval
          job_obj_def of_nullable_def)
  have "unfiltered = [[(''id'', Num 2), (''title'', Str ''J2''), (''salary'', Num 2),
             (''equity'', Dec (2 / 10)), (''companyHandle'', Str ''c1''),
             (''companyName'', Str ''C1'')],
            [(''id'', Num 3), (''title'', Str ''J3''), (''salary'', Num 3),
             (''equity'', Null), (''companyHandle'', Str ''c1''),
             (''companyName'', Str ''C1'')],
            [(''id'', Num 4), (''title'', Str ''J4''), (''salary'', Num 4),
             (''equity'', Dec 0), (''companyHandle'', Str ''c1''),
             (''companyName'', Str ''C1'')]]"
    using u all by simp
  moreover have "filtered = [[(''id'', Num 2), (''title'', Str ''J2''), (''salary'', Num 2),
             (''equity'', Dec (2 / 10)), (''companyHandle'', Str ''c1''),
             (''companyName'', Str ''C1'')]]"
    using f some by simp
  ultimately have "set [[(''id'', Num 2), (''title'', Str ''J2''), (''salary'', Num 2),
             (''equity'', Dec (2 / 10)), (''companyHandle'', Str ''c1''),
             (''companyName'', Str ''C1'')]]
     = {row \<in> set [[(''id'', Num 2), (''title'', Str ''J2''), (''salary'', Num 2),
             (''equity'', Dec (2 / 10)), (''companyHandle'', Str ''c1''),
             (''companyName'', Str ''C1'')],
            [(''id'', Num 3), (''title'', Str ''J3''), (''salary'', Num 3),
             (''equity'', Null), (''companyHandle'', Str ''c1''),
             (''companyName'', Str ''C1'')],
            [(''id'', Num 4), (''title'', Str ''J4''), (''salary'', Num 4),
             (''equity'', Dec 0), (''companyHandle'', Str ''c1''),
             (''companyName'', Str ''C1'')]]. has_equity row}"
    using s by (simp only:)
  with all some q show ?thesis by (simp only: simp_thms)
qed

text \<open>
  The scenario of the spec: among the three jobs of the tests, the search for a salary
  of at least 2 and a title with "3" in it returns the third alone.
\<close>

lemma findAll_minSalary_title:
  "fst (Job_findAll (Some 2) None (Some ''3'') test_db)
     = Inr [[(''id'', Num 3), (''title'', Str ''J3''), (''salary'', Num 3),
             (''equity'', Null), (''companyHandle'', Str ''c1''),
             (''companyName'', Str ''C1'')]]"
  by (simp add: Job_findAll_def Job_findAll_query_def db_query_def test_db_def param_simps
        findAll_eval job_obj_def of_nullable_def sample_ilike_def lower_char_def)

section \<open>Properties of get, update and remove\<close>

lemma param_last: "param (vs @ [k]) (Suc (length vs)) = Some k"
  by (simp add: param_def)

lemma bind_positions:
  assumes "length cols = length vs"
  shows "list_all (\<lambda>a. param (vs @ [k]) (snd a) \<noteq> None) (zip cols [Suc 0..<Suc (length vs)])"
    and "map (\<lambda>a. (fst a, case param (vs @ [k]) (snd a) of None \<Rightarrow> Null | Some v \<Rightarrow> v))
           (zip cols [Suc 0..<Suc (length vs)]) = zip cols vs"
proof -
  show "list_all (\<lambda>a. param (vs @ [k]) (snd a) \<noteq> None) (zip cols [Suc 0..<Suc (length vs)])"
    by (auto simp: list_all_iff param_def simp del: upt_Suc dest!: set_zip_rightD)
  show "map (\<lambda>a. (fst a, case param (vs @ [k]) (snd a) of None \<Rightarrow> Null | Some v \<Rightarrow> v))
           (zip cols [Suc 0..<Suc (length vs)]) = zip cols vs"
    using assms
    by (intro nth_equalityI) (auto simp: param_def nth_append simp del: upt_Suc)
qed

lemma bound_assignments_update:
  assumes valid: "valid_update assignable jsToSql data"
    and quote: "\<And>col v. assignable col v \<Longrightarrow> CHR 0x22 \<notin> set col"
    and u: "sqlForPartialUpdate data jsToSql = Inr u"
  shows "bound_assignments (setCols u) (values u @ [k])
           = Some (map (\<lambda>kv. (column jsToSql (fst kv), snd kv)) data)"
proof -
  let ?cols = "map (\<lambda>kv. column jsToSql (fst kv)) data"
  from valid have ne: "data \<noteq> []" and dist: "distinct ?cols"
    and ok: "list_all (\<lambda>kv. assignable (column jsToSql (fst kv)) (snd kv)) data"
    by (simp_all add: valid_update_def)
  from u ne have sc: "setCols u = join '', '' (assignments jsToSql (map fst data) 0)"
    and vs: "values u = map snd data"
    by (auto simp: sqlForPartialUpdate_def)
  have "list_all (\<lambda>k. CHR 0x22 \<notin> set (column jsToSql k)) (map fst data)"
    using ok quote by (auto simp: list_all_iff)
  with ne have parse: "parse_set_clause (setCols u) = Some (zip ?cols [Suc 0..<Suc (length (values u))])"
    using parse_set_clause_render [of "map fst data" jsToSql 0]
    by (simp add: sc vs comp_def del: upt_Suc)
  have len: "length ?cols = length (values u)" by (simp add: vs)
  have fst_zip: "map fst (zip ?cols [Suc 0..<Suc (length (values u))]) = ?cols"
    by (simp add: vs del: upt_Suc)
  have z: "zip ?cols (values u) = map (\<lambda>kv. (column jsToSql (fst kv), snd kv)) data"
    unfolding vs by (induction data) simp_all
  show ?thesis
    unfolding bound_assignments_def parse
    using bind_positions [OF len, of k] dist fst_zip
    by (simp add: z del: upt_Suc)
qed

lemma assignable_company_quote: "assignable_company col v \<Longrightarrow> CHR 0x22 \<notin> set col"
  by (auto simp: assignable_company_def split: if_splits)

lemma assignable_job_quote: "assignable_job col v \<Longrightarrow> CHR 0x22 \<notin> set col"
  by (auto simp: assignable_job_def split: if_splits)

lemma first_row_map:
  "first_row (map f xs) = (case xs of [] \<Rightarrow> Undefined | x # _ \<Rightarrow> Obj (f x))"
  by (cases xs) (simp_all add: first_row_def)

lemma Company_get_result:
  "Company_get h d =
     (case filter (\<lambda>r. c_handle r = h) (companies d) of
        [] \<Rightarrow> (Inl (NotFoundError (''No company: '' @ h)), d\<lparr>queries := queries d + 1\<rparr>)
      | r # _ \<Rightarrow> (Inr (Obj (company_obj r)), d\<lparr>queries := queries d + 1\<rparr>))"
  by (simp add: Company_get_def db_query_def first_row_map split: list.splits)

lemma Company_remove_result:
  "Company_remove h d =
     (case filter (\<lambda>r. c_handle r = h) (companies d) of
        [] \<Rightarrow> (Inl (NotFoundError (''No company: '' @ h)),
               d\<lparr>companies := filter (\<lambda>r. c_handle r \<noteq> h) (companies d),
                  queries := queries d + 1\<rparr>)
      | r # _ \<Rightarrow> (Inr Undefined,
                  d\<lparr>companies := filter (\<lambda>r. c_handle r \<noteq> h) (companies d),
                     queries := queries d + 1\<rparr>))"
  by (simp add: Company_remove_def db_query_def first_row_map split: list.splits)

lemma Company_update_result:
  assumes "valid_update assignable_company company_jsToSql data"
  shows "Company_update h data d =
     (case filter (\<lambda>r. c_handle r = h) (companies d) of
        [] \<Rightarrow> (Inl (NotFoundError (''No company: '' @ h)),
               d\<lparr>companies :=
                    map (\<lambda>r. if c_handle r = h
                             then foldl assign_company r
                                    (map (\<lambda>kv. (column company_jsToSql (fst kv), snd kv)) data)
                             else r) (companies d),
                  queries := queries d + 1\<rparr>)
      | r # _ \<Rightarrow> (Inr (Obj (company_obj
                   (foldl assign_company r
                      (map (\<lambda>kv. (column company_jsToSql (fst kv), snd kv)) data)))),
                  d\<lparr>companies :=
                       map (\<lambda>r. if c_handle r = h
                                then foldl assign_company r
                                       (map (\<lambda>kv. (column company_jsToSql (fst kv), snd kv)) data)
                                else r) (companies d),
                     queries := queries d + 1\<rparr>))"
proof -
  from assms have "data \<noteq> []" by (simp add: valid_update_def)
  then obtain u where u: "sqlForPartialUpdate data company_jsToSql = Inr u"
    by (auto simp: sqlForPartialUpdate_def)
  have ok: "list_all (\<lambda>a. assignable_company (fst a) (snd a))
              (map (\<lambda>kv. (column company_jsToSql (fst kv), snd kv)) data)"
    using assms by (simp add: valid_update_def list_all_iff)
  note b = bound_assignments_update [OF assms assignable_company_quote u, where k = "Str h"]
  show ?thesis
    unfolding Company_update_def u
    by (simp add: db_query_def b param_last ok first_row_map split: list.splits)
qed

lemma id_value_NumKey: "int4 n \<Longrightarrow> id_value (key_param (NumKey n)) = Some (Some n)"
  by simp

lemma pg_trim_id:
  assumes "s \<noteq> []" "\<not> pg_space (hd s)" "\<not> pg_space (last s)"
  shows "pg_trim s = s"
proof -
  have "dropWhile pg_space s = s"
    using assms(1,2) by (cases s) simp_all
  moreover have "dropWhile pg_space (rev s) = rev s"
    using assms(1,3) by (cases "rev s") (simp_all add: hd_rev [symmetric])
  ultimately show ?thesis
    by (simp add: pg_trim_def)
qed

lemma digit_not_space: "is_digit c \<Longrightarrow> \<not> pg_space c"
  by (simp add: is_digit_def pg_space_def)

lemma pg_trim_string_of_int: "pg_trim (string_of_int n) = string_of_int n"
proof -
  let ?m = "string_of_nat (nat (if n < 0 then - n else n))"
  have ne: "?m \<noteq> []"
    by (rule string_of_nat_nonempty)
  have ds: "list_all is_digit ?m"
    by (rule string_of_nat_digits)
  have l: "\<not> pg_space (last ?m)"
    using ne ds by (auto simp: list_all_iff intro!: digit_not_space)
  have h: "\<not> pg_space (hd ?m)"
    using ne ds by (auto simp: list_all_iff intro!: digit_not_space)
  show ?thesis
  proof (cases "n < 0")
    case True
    then have "string_of_int n = CHR ''-'' # ?m"
      by (simp add: string_of_int_def)
    moreover have "\<not> pg_space (CHR ''-'')"
      by (simp add: pg_space_def)
    ultimately show ?thesis
      using pg_trim_id [of "CHR ''-'' # ?m"] ne l True by simp
  next
    case False
    then have "string_of_int n = ?m"
      by (simp add: string_of_int_def)
    then show ?thesis
      using pg_trim_id [of ?m] ne h l by simp
  qed
qed

lemma int_of_text_string_of_int: "int_of_text (string_of_int n) = Some n"
proof (cases "n < 0")
  case True
  have "signed_digits (string_of_int n) = Some n"
    using True
    by (simp add: string_of_int_def signed_digits_def string_of_nat_nonempty
          string_of_nat_digits nat_of_digits_string_of_nat)
  then show ?thesis
    by (simp add: int_of_text_def pg_trim_string_of_int)
next
  case False
  obtain c ds where s: "string_of_nat (nat n) = c # ds"
    using string_of_nat_nonempty [of "nat n"] by (cases "string_of_nat (nat n)") auto
  have "is_digit c"
    using string_of_nat_digits [of "nat n"] by (simp add: s)
  then have c: "c \<noteq> CHR ''-''" "c \<noteq> CHR ''+''"
    by (auto simp: is_digit_def)
  have "signed_digits (c # ds) = Some (int (nat_of_digits (c # ds)))"
    using c string_of_nat_digits [of "nat n"] by (simp add: signed_digits_def s)
  then have "signed_digits (string_of_int n) = Some n"
    using False nat_of_digits_string_of_nat [of "nat n"] by (simp add: string_of_int_def s)
  then show ?thesis
    by (simp add: int_of_text_def pg_trim_string_of_int)
qed

lemma id_value_StrKey:
  "int4 n \<Longrightarrow> id_value (key_param (StrKey (string_of_int n))) = Some (Some n)"
  by (simp add: int_of_text_string_of_int)

lemma Job_get_result:
  assumes "id_value (key_param k) = Some (Some i)"
  shows "Job_get k d =
     (case filter (\<lambda>r. j_id r = i) (jobs d) of
        [] \<Rightarrow> (Inl (NotFoundError (''No job: '' @ key_text k)), d\<lparr>queries := queries d + 1\<rparr>)
      | j # _ \<Rightarrow>
          (Inr (Obj (AList.update ''company''
                       (first_row (map company_obj
                          (filter (\<lambda>c. c_handle c = j_company_handle j) (companies d))))
                       (AList.delete ''companyHandle'' (job_obj j)))),
           d\<lparr>queries := queries d + 2\<rparr>))"
  using assms
  by (simp add: Job_get_def db_query_def job_obj_def get_prop_def split: list.splits)

lemma Job_remove_result:
  assumes "id_value (key_param k) = Some (Some i)"
  shows "Job_remove k d =
     (case filter (\<lambda>r. j_id r = i) (jobs d) of
        [] \<Rightarrow> (Inl (NotFoundError (''No job: '' @ key_text k)),
               d\<lparr>jobs := filter (\<lambda>r. j_id r \<noteq> i) (jobs d), queries := queries d + 1\<rparr>)
      | r # _ \<Rightarrow> (Inr Undefined,
                  d\<lparr>jobs := filter (\<lambda>r. j_id r \<noteq> i) (jobs d), queries := queries d + 1\<rparr>))"
  using assms
  by (simp add: Job_remove_def db_query_def first_row_map split: list.splits)

lemma Job_update_result:
  assumes "valid_update assignable_job [] data"
    and "id_value (key_param k) = Some (Some i)"
  shows "Job_update k data d =
     (case filter (\<lambda>r. j_id r = i) (jobs d) of
        [] \<Rightarrow> (Inl (NotFoundError (''No job: '' @ key_text k)),
               d\<lparr>jobs :=
                    map (\<lambda>r. if j_id r = i
                             then foldl assign_job r (map (\<lambda>kv. (column [] (fst kv), snd kv)) data)
                             else r) (jobs d),
                  queries := queries d + 1\<rparr>)
      | r # _ \<Rightarrow> (Inr (Obj (job_obj
                   (foldl assign_job r (map (\<lambda>kv. (column [] (fst kv), snd kv)) data)))),
                  d\<lparr>jobs :=
                       map (\<lambda>r. if j_id r = i
                                then foldl assign_job r (map (\<lambda>kv. (column [] (fst kv), snd kv)) data)
                                else r) (jobs d),
                     queries := queries d + 1\<rparr>))"
proof -
  from assms have "data \<noteq> []" by (simp add: valid_update_def)
  then obtain u where u: "sqlForPartialUpdate data [] = Inr u"
    by (auto simp: sqlForPartialUpdate_def)
  have ok: "list_all (\<lambda>a. assignable_job (fst a) (snd a))
              (map (\<lambda>kv. (column [] (fst kv), snd kv)) data)"
    using assms by (simp add: valid_update_def list_all_iff)
  note b = bound_assignments_update [OF assms(1) assignable_job_quote u, where k = "key_param k"]
  show ?thesis
    unfolding Job_update_def u
    by (simp add: db_query_def b param_last ok first_row_map assms(2) split: list.splits)
qed

text \<open>
  A key that the identifier column does not take, a text that is not a number or a
  number outside the range, makes the statement fail: the error of the driver leaves
  the method as it is, whatever the table holds.
\<close>

lemma Job_key_rejected:
  assumes "id_value (key_param k) = None"
  shows "fst (Job_get k d) = Inl DbError"
    and "fst (Job_remove k d) = Inl DbError"
    and "data \<noteq> [] \<Longrightarrow> fst (Job_update k data d) = Inl DbError"
proof -
  show "fst (Job_get k d) = Inl DbError"
    using assms by (simp add: Job_get_def db_query_def)
  show "fst (Job_remove k d) = Inl DbError"
    using assms by (simp add: Job_remove_def db_query_def)
  show "fst (Job_update k data d) = Inl DbError" if "data \<noteq> []"
  proof -
    from that obtain u where u: "sqlForPartialUpdate data [] = Inr u"
      by (auto simp: sqlForPartialUpdate_def)
    show ?thesis
      unfolding Job_update_def u
      using assms by (simp add: db_query_def param_last split: option.splits)
  qed
qed

lemma filter_Nil_iff: "(filter P xs = []) = (\<forall>x \<in> set xs. \<not> P x)"
  by (simp add: filter_empty_conv)

lemma fst_case_list:
  "fst (case xs of [] \<Rightarrow> a | x # ys \<Rightarrow> b x) = (if xs = [] then fst a else fst (b (hd xs)))"
  by (cases xs) simp_all

text \<open>
  C7, as the code has it. For every company handle, and for every job key that the
  identifier column takes (an integer of its range, passed as a number or, as the routes
  do, as its decimal text, both of which the column takes): \<open>get\<close> and \<open>remove\<close>, and
  \<open>update\<close> with valid data, throw the not-found error of that key exactly when no row has
  the key, and succeed exactly when one has.
\<close>

theorem not_found_iff_absent:
  assumes "valid_update assignable_company company_jsToSql companyData"
    and "valid_update assignable_job [] jobData"
    and "id_value (key_param k) = Some (Some i)"
  shows "((fst (Company_get h d) = Inl (NotFoundError (''No company: '' @ h)))
           = (h \<notin> c_handle ` set (companies d)))
    \<and> ((\<exists>company. fst (Company_get h d) = Inr (Obj company))
           = (h \<in> c_handle ` set (companies d)))
    \<and> ((fst (Company_remove h d) = Inl (NotFoundError (''No company: '' @ h)))
           = (h \<notin> c_handle ` set (companies d)))
    \<and> ((fst (Company_remove h d) = Inr Undefined) = (h \<in> c_handle ` set (companies d)))
    \<and> ((fst (Company_update h companyData d) = Inl (NotFoundError (''No company: '' @ h)))
           = (h \<notin> c_handle ` set (companies d)))
    \<and> ((\<exists>company. fst (Company_update h companyData d) = Inr (Obj company))
           = (h \<in> c_handle ` set (companies d)))
    \<and> ((fst (Job_get k d) = Inl (NotFoundError (''No job: '' @ key_text k)))
           = (i \<notin> j_id ` set (jobs d)))
    \<and> ((\<exists>job. fst (Job_get k d) = Inr (Obj job)) = (i \<in> j_id ` set (jobs d)))
    \<and> ((fst (Job_remove k d) = Inl (NotFoundError (''No job: '' @ key_text k)))
           = (i \<notin> j_id ` set (jobs d)))
    \<and> ((fst (Job_remove k d) = Inr Undefined) = (i \<in> j_id ` set (jobs d)))
    \<and> ((fst (Job_update k jobData d) = Inl (NotFoundError (''No job: '' @ key_text k)))
           = (i \<notin> j_id ` set (jobs d)))
    \<and> ((\<exists>job. fst (Job_update k jobData d) = Inr (Obj job)) = (i \<in> j_id ` set (jobs d)))
    \<and> (int4 n \<longrightarrow>
          id_value (key_param (NumKey n)) = Some (Some n)
        \<and> id_value (key_param (StrKey (string_of_int n))) = Some (Some n))"
proof -
  have c: "(filter (\<lambda>r. c_handle r = h) (companies d) = []) = (h \<notin> c_handle ` set (companies d))"
    by (auto simp: filter_Nil_iff)
  have j: "(filter (\<lambda>r. j_id r = i) (jobs d) = []) = (i \<notin> j_id ` set (jobs d))"
    by (auto simp: filter_Nil_iff)
  have cg: "(fst (Company_get h d) = Inl (NotFoundError (''No company: '' @ h)))
           = (h \<notin> c_handle ` set (companies d))"
    "(\<exists>company. fst (Company_get h d) = Inr (Obj company)) = (h \<in> c_handle ` set (companies d))"
    unfolding Company_get_result fst_case_list using c by simp_all
  have cr: "(fst (Company_remove h d) = Inl (NotFoundError (''No company: '' @ h)))
           = (h \<notin> c_handle ` set (companies d))"
    "(fst (Company_remove h d) = Inr Undefined) = (h \<in> c_handle ` set (companies d))"
    unfolding Company_remove_result fst_case_list using c by simp_all
  have cu: "(fst (Company_update h companyData d) = Inl (NotFoundError (''No company: '' @ h)))
           = (h \<notin> c_handle ` set (companies d))"
    "(\<exists>company. fst (Company_update h companyData d) = Inr (Obj company))
           = (h \<in> c_handle ` set (companies d))"
    unfolding Company_update_result [OF assms(1)] fst_case_list using c by simp_all
  have jg: "(fst (Job_get k d) = Inl (NotFoundError (''No job: '' @ key_text k)))
           = (i \<notin> j_id ` set (jobs d))"
    "(\<exists>job. fst (Job_get k d) = Inr (Obj job)) = (i \<in> j_id ` set (jobs d))"
    unfolding Job_get_result [OF assms(3)] fst_case_list using j by simp_all
  have jr: "(fst (Job_remove k d) = Inl (NotFoundError (''No job: '' @ key_text k)))
           = (i \<notin> j_id ` set (jobs d))"
    "(fst (Job_remove k d) = Inr Undefined) = (i \<in> j_id ` set (jobs d))"
    unfolding Job_remove_result [OF assms(3)] fst_case_list using j by simp_all
  have ju: "(fst (Job_update k jobData d) = Inl (NotFoundError (''No job: '' @ key_text k)))
           = (i \<notin> j_id ` set (jobs d))"
    "(\<exists>job. fst (Job_update k jobData d) = Inr (Obj job)) = (i \<in> j_id ` set (jobs d))"
    unfolding Job_update_result [OF assms(2) assms(3)] fst_case_list using j by simp_all
  have keys: "int4 n \<longrightarrow>
          id_value (key_param (NumKey n)) = Some (Some n)
        \<and> id_value (key_param (StrKey (string_of_int n))) = Some (Some n)"
    using id_value_NumKey id_value_StrKey by blast
  show ?thesis
    by (intro conjI cg cr cu jg jr ju keys)
qed

theorem not_found_iff_absent_witness:
  "valid_update assignable_company company_jsToSql
      [(''name'', Str ''New''), (''numEmployees'', Null)]
   \<and> valid_update assignable_job [] [(''title'', Str ''New''), (''salary'', Num 500)]
   \<and> id_value (key_param (StrKey ''7'')) = Some (Some 7)
   \<and> id_value (key_param (NumKey 1)) = Some (Some 1)
   \<and> fst (Company_get ''nope'' test_db) = Inl (NotFoundError ''No company: nope'')
   \<and> fst (Company_remove ''nope'' test_db) = Inl (NotFoundError ''No company: nope'')
   \<and> fst (Company_update ''nope'' [(''name'', Str ''New''), (''numEmployees'', Null)] test_db)
       = Inl (NotFoundError ''No company: nope'')
   \<and> fst (Job_get (StrKey ''7'') test_db) = Inl (NotFoundError ''No job: 7'')
   \<and> fst (Job_remove (StrKey ''7'') test_db) = Inl (NotFoundError ''No job: 7'')
   \<and> fst (Job_update (StrKey ''7'') [(''title'', Str ''New''), (''salary'', Num 500)] test_db)
       = Inl (NotFoundError ''No job: 7'')
   \<and> fst (Company_remove ''c1'' test_db) = Inr Undefined
   \<and> fst (Job_remove (NumKey 1) test_db) = Inr Undefined
   \<and> fst (Company_update ''c1'' [(''name'', Str ''New''), (''numEmployees'', Null)] test_db)
       \<noteq> Inl (NotFoundError ''No company: c1'')
   \<and> fst (Job_update (NumKey 1) [(''title'', Str ''New''), (''salary'', Num 500)] test_db)
       \<noteq> Inl (NotFoundError ''No job: 1'')"
proof -
  have c: "valid_update assignable_company company_jsToSql
             [(''name'', Str ''New''), (''numEmployees'', Null)]"
    by (simp add: valid_update_def assignable_company_def company_jsToSql_def column_def)
  have j: "valid_update assignable_job [] [(''title'', Str ''New''), (''salary'', Num 500)]"
    by (simp add: valid_update_def assignable_job_def column_def)
  have k7: "id_value (key_param (StrKey ''7'')) = Some (Some 7)"
    by (simp add: int_of_text_def pg_trim_def pg_space_def signed_digits_def is_digit_def
          nat_of_digits_def int4_def)
  have k1: "id_value (key_param (NumKey 1)) = Some (Some 1)"
    by (simp add: int4_def)
  have t: "string_of_int 1 = ''1''"
    by (simp add: string_of_int_def string_of_nat.simps digit_char_def)
  show ?thesis
    using not_found_iff_absent [OF c j k7, of "''nope''" test_db]
          not_found_iff_absent [OF c j k1, of "''c1''" test_db]
          c j k7 k1
    by (simp add: test_db_def t)
qed

text \<open>
  C7 as the spec states it fails for jobs. The store of the tests has the jobs 1, 2 and
  3. For the key "abc", as a route passes it, no job has that key, and \<open>get\<close>, \<open>remove\<close>
  and \<open>update\<close> fail with the error of the driver, not with the not-found error; so does
  \<open>get\<close> for the number 2147483648.
\<close>

theorem Job_key_counterexample:
  "map j_id (jobs test_db) = [1, 2, 3]
   \<and> fst (Job_get (StrKey ''abc'') test_db) = Inl DbError
   \<and> fst (Job_remove (StrKey ''abc'') test_db) = Inl DbError
   \<and> fst (Job_update (StrKey ''abc'') [(''title'', Str ''New'')] test_db) = Inl DbError
   \<and> fst (Job_get (NumKey 2147483648) test_db) = Inl DbError"
proof -
  have a: "id_value (key_param (StrKey ''abc'')) = None"
    by (simp add: int_of_text_def pg_trim_def pg_space_def signed_digits_def is_digit_def)
  have b: "id_value (key_param (NumKey 2147483648)) = None"
    by (simp add: int4_def)
  show ?thesis
    using Job_key_rejected(1) [OF a, of test_db] Job_key_rejected(2) [OF a, of test_db]
          Job_key_rejected(3) [OF a, of "[(''title'', Str ''New'')]" test_db]
          Job_key_rejected(1) [OF b, of test_db]
    by (simp add: test_db_def)
qed

section \<open>Creating, then getting\<close>

lemma nullable_of_nullable [simp]:
  "nullable_int (of_nullable Num n) = Some n"
  "nullable_text (of_nullable Str t) = Some t"
  "nullable_dec (of_nullable Dec q) = Some q"
  by (simp_all add: of_nullable_def split: option.split)

lemma Company_create_result:
  "Company_create handle name description numEmployees logoUrl d =
     (if handle \<in> c_handle ` set (companies d)
      then (Inl (BadRequestError (''Duplicate company: '' @ handle)),
            d\<lparr>queries := queries d + 1\<rparr>)
      else (Inr (Obj (company_obj
                   \<lparr>c_handle = handle, c_name = name, c_description = description,
                     c_num_employees = numEmployees, c_logo_url = logoUrl\<rparr>)),
            d\<lparr>companies := companies d @
                   [\<lparr>c_handle = handle, c_name = name, c_description = description,
                     c_num_employees = numEmployees, c_logo_url = logoUrl\<rparr>],
              queries := queries d + 2\<rparr>))"
  by (auto simp: Company_create_def db_query_def first_row_def filter_Nil_iff Let_def)

lemma Job_create_result:
  "Job_create title salary equity companyHandle d =
     (if jobs_id_seq d \<in> j_id ` set (jobs d) \<or> \<not> int4 (jobs_id_seq d)
      then (Inl DbError, d\<lparr>jobs_id_seq := jobs_id_seq d + 1, queries := queries d + 1\<rparr>)
      else (Inr (Obj (job_obj
                   \<lparr>j_id = jobs_id_seq d, j_title = title, j_salary = salary,
                     j_equity = equity, j_company_handle = companyHandle\<rparr>)),
            d\<lparr>jobs := jobs d @
                   [\<lparr>j_id = jobs_id_seq d, j_title = title, j_salary = salary,
                     j_equity = equity, j_company_handle = companyHandle\<rparr>],
              jobs_id_seq := jobs_id_seq d + 1,
              queries := queries d + 1\<rparr>))"
  by (auto simp: Job_create_def db_query_def first_row_def Let_def)


text \<open>
  The calls of \<open>commonBeforeAll\<close> on companies and jobs, run on the empty store, give the
  store of the tests after nine statements.
\<close>

lemma commonBeforeAll_test_db:
  "snd (Job_create ''J3'' (Some 3) None ''c1''
    (snd (Job_create ''J2'' (Some 2) (Some (2 / 10)) ''c1''
    (snd (Job_create ''J1'' (Some 1) (Some (1 / 10)) ''c1''
    (snd (Company_create ''c3'' ''C3'' ''Desc3'' (Some 3) (Some ''http://c3.img'')
    (snd (Company_create ''c2'' ''C2'' ''Desc2'' (Some 2) (Some ''http://c2.img'')
    (snd (Company_create ''c1'' ''C1'' ''Desc1'' (Some 1) (Some ''http://c1.img'')
           (test_db\<lparr>companies := [], jobs := [], jobs_id_seq := 1\<rparr>))))))))))))
   = test_db\<lparr>queries := 9\<rparr>"
  by (simp add: Company_create_result Job_create_result test_db_def int4_def)

text \<open>
  C1, as the code has it. A company that \<open>create\<close> returns is what \<open>get\<close> of its handle
  returns next. A job that \<open>create\<close> returns has the identifier the store generated;
  \<open>get\<close> of that identifier succeeds, with the same \<open>id\<close>, \<open>title\<close>, \<open>salary\<close> and \<open>equity\<close>;
  the \<open>companyHandle\<close> of the created job is not a property of the job got, which has
  under \<open>company\<close> the row of the company with that handle (\<open>undefined\<close> if there is none).
\<close>

theorem create_then_get:
  "(Company_create handle name description numEmployees logoUrl d = (Inr company, d1) \<longrightarrow>
      Company_get handle d1 = (Inr company, d1\<lparr>queries := queries d1 + 1\<rparr>))
   \<and> (Job_create title salary equity companyHandle d = (Inr job, d2) \<longrightarrow>
      (\<exists>created got.
          job = Obj created
        \<and> fst (Job_get (NumKey (jobs_id_seq d)) d2) = Inr (Obj got)
        \<and> get_prop created ''id'' = Num (jobs_id_seq d)
        \<and> list_all (\<lambda>k. map_of created k \<noteq> None \<and> map_of got k = map_of created k)
             [''id'', ''title'', ''salary'', ''equity'']
        \<and> map_of created ''companyHandle'' = Some (Str companyHandle)
        \<and> map_of got ''companyHandle'' = None
        \<and> map_of got ''company''
            = Some (first_row (map company_obj
                      (filter (\<lambda>c. c_handle c = companyHandle) (companies d2))))))"
proof (intro conjI impI)
  assume a: "Company_create handle name description numEmployees logoUrl d = (Inr company, d1)"
  let ?r = "\<lparr>c_handle = handle, c_name = name, c_description = description,
             c_num_employees = numEmployees, c_logo_url = logoUrl\<rparr>"
  from a have fresh: "handle \<notin> c_handle ` set (companies d)"
    and company: "company = Obj (company_obj ?r)"
    and d1: "companies d1 = companies d @ [?r]"
    by (auto simp: Company_create_result split: if_splits)
  have "filter (\<lambda>r. c_handle r = handle) (companies d1) = [?r]"
    using fresh by (force simp: d1 filter_Nil_iff)
  then show "Company_get handle d1 = (Inr company, d1\<lparr>queries := queries d1 + 1\<rparr>)"
    by (simp add: Company_get_result company)
next
  assume a: "Job_create title salary equity companyHandle d = (Inr job, d2)"
  let ?r = "\<lparr>j_id = jobs_id_seq d, j_title = title, j_salary = salary,
             j_equity = equity, j_company_handle = companyHandle\<rparr>"
  let ?got = "AList.update ''company''
                (first_row (map company_obj
                   (filter (\<lambda>c. c_handle c = companyHandle) (companies d2))))
                (AList.delete ''companyHandle'' (job_obj ?r))"
  from a have fresh: "jobs_id_seq d \<notin> j_id ` set (jobs d)"
    and range: "int4 (jobs_id_seq d)"
    and job: "job = Obj (job_obj ?r)"
    and d2: "jobs d2 = jobs d @ [?r]"
    by (auto simp: Job_create_result split: if_splits)
  have "filter (\<lambda>r. j_id r = jobs_id_seq d) (jobs d2) = [?r]"
    using fresh by (force simp: d2 filter_Nil_iff)
  then have got: "fst (Job_get (NumKey (jobs_id_seq d)) d2) = Inr (Obj ?got)"
    by (simp add: Job_get_result [OF id_value_NumKey [OF range]])
  have props: "get_prop (job_obj ?r) ''id'' = Num (jobs_id_seq d)"
    "list_all (\<lambda>k. map_of (job_obj ?r) k \<noteq> None \<and> map_of ?got k = map_of (job_obj ?r) k)
             [''id'', ''title'', ''salary'', ''equity'']"
    "map_of (job_obj ?r) ''companyHandle'' = Some (Str companyHandle)"
    "map_of ?got ''companyHandle'' = None"
    "map_of ?got ''company''
            = Some (first_row (map company_obj
                      (filter (\<lambda>c. c_handle c = companyHandle) (companies d2))))"
    by (simp_all add: job_obj_def get_prop_def)
  show "\<exists>created got.
          job = Obj created
        \<and> fst (Job_get (NumKey (jobs_id_seq d)) d2) = Inr (Obj got)
        \<and> get_prop created ''id'' = Num (jobs_id_seq d)
        \<and> list_all (\<lambda>k. map_of created k \<noteq> None \<and> map_of got k = map_of created k)
             [''id'', ''title'', ''salary'', ''equity'']
        \<and> map_of created ''companyHandle'' = Some (Str companyHandle)
        \<and> map_of got ''companyHandle'' = None
        \<and> map_of got ''company''
            = Some (first_row (map company_obj
                      (filter (\<lambda>c. c_handle c = companyHandle) (companies d2))))"
    using job got props by blast
qed

theorem create_then_get_witness:
  "fst (Company_create ''new'' ''New'' ''New Description'' (Some 1) (Some ''http://new.img'')
          test_db)
     = Inr (Obj [(''handle'', Str ''new''), (''name'', Str ''New''),
                 (''description'', Str ''New Description''), (''numEmployees'', Num 1),
                 (''logoUrl'', Str ''http://new.img'')])
   \<and> fst (Company_get ''new''
          (snd (Company_create ''new'' ''New'' ''New Description'' (Some 1)
                  (Some ''http://new.img'') test_db)))
     = Inr (Obj [(''handle'', Str ''new''), (''name'', Str ''New''),
                 (''description'', Str ''New Description''), (''numEmployees'', Num 1),
                 (''logoUrl'', Str ''http://new.img'')])
   \<and> fst (Job_create ''Test'' (Some 100) (Some (1 / 10)) ''c1'' test_db)
     = Inr (Obj [(''id'', Num 4), (''title'', Str ''Test''), (''salary'', Num 100),
                 (''equity'', Dec (1 / 10)), (''companyHandle'', Str ''c1'')])
   \<and> (\<exists>got. fst (Job_get (NumKey 4) (snd (Job_create ''Test'' (Some 100) (Some (1 / 10)) ''c1'' test_db)))
              = Inr (Obj got)
          \<and> map_of got ''title'' = Some (Str ''Test'')
          \<and> map_of got ''companyHandle'' = None
          \<and> map_of got ''company''
              = Some (Obj [(''handle'', Str ''c1''), (''name'', Str ''C1''),
                           (''description'', Str ''Desc1''), (''numEmployees'', Num 1),
                           (''logoUrl'', Str ''http://c1.img'')]))"
proof -
  let ?c = "Obj [(''handle'', Str ''new''), (''name'', Str ''New''),
                 (''description'', Str ''New Description''), (''numEmployees'', Num 1),
                 (''logoUrl'', Str ''http://new.img'')]"
  let ?j = "Obj [(''id'', Num 4), (''title'', Str ''Test''), (''salary'', Num 100),
                 (''equity'', Dec (1 / 10)), (''companyHandle'', Str ''c1'')]"
  let ?cc = "Company_create ''new'' ''New'' ''New Description'' (Some 1) (Some ''http://new.img'')
               test_db"
  let ?jc = "Job_create ''Test'' (Some 100) (Some (1 / 10)) ''c1'' test_db"
  have c: "fst ?cc = Inr ?c"
    by (simp add: Company_create_result test_db_def company_obj_def of_nullable_def)
  have j: "fst ?jc = Inr ?j"
    by (simp add: Job_create_result test_db_def job_obj_def of_nullable_def int4_def)
  have seq: "jobs_id_seq test_db = 4"
    and cs: "filter (\<lambda>c. c_handle c = ''c1'') (companies (snd ?jc))
               = [\<lparr>c_handle = ''c1'', c_name = ''C1'', c_description = ''Desc1'',
                   c_num_employees = Some 1, c_logo_url = Some ''http://c1.img''\<rparr>]"
    by (simp_all add: Job_create_result test_db_def int4_def)
  note r = create_then_get
             [where handle = "''new''" and name = "''New''" and description = "''New Description''"
                and numEmployees = "Some 1" and logoUrl = "Some ''http://new.img''"
                and title = "''Test''" and salary = "Some 100" and equity = "Some (1 / 10)"
                and companyHandle = "''c1''" and d = test_db
                and company = ?c and ?d1.0 = "snd ?cc" and job = ?j and ?d2.0 = "snd ?jc"]
  have "Company_get ''new'' (snd ?cc) = (Inr ?c, (snd ?cc)\<lparr>queries := queries (snd ?cc) + 1\<rparr>)"
    using r c by (simp add: prod_eq_iff)
  then have g: "fst (Company_get ''new'' (snd ?cc)) = Inr ?c"
    by simp
  from r j obtain created got where
    "?j = Obj created" "fst (Job_get (NumKey (jobs_id_seq test_db)) (snd ?jc)) = Inr (Obj got)"
    "list_all (\<lambda>k. map_of created k \<noteq> None \<and> map_of got k = map_of created k)
       [''id'', ''title'', ''salary'', ''equity'']"
    "map_of got ''companyHandle'' = None"
    "map_of got ''company''
       = Some (first_row (map company_obj
                 (filter (\<lambda>c. c_handle c = ''c1'') (companies (snd ?jc)))))"
    by (auto simp: prod_eq_iff)
  then have "fst (Job_get (NumKey 4) (snd ?jc)) = Inr (Obj got)
          \<and> map_of got ''title'' = Some (Str ''Test'')
          \<and> map_of got ''companyHandle'' = None
          \<and> map_of got ''company''
              = Some (Obj [(''handle'', Str ''c1''), (''name'', Str ''C1''),
                           (''description'', Str ''Desc1''), (''numEmployees'', Num 1),
                           (''logoUrl'', Str ''http://c1.img'')])"
    unfolding seq cs by (auto simp: first_row_def company_obj_def of_nullable_def)
  then show ?thesis
    using c g j by blast
qed

text \<open>
  C1 as the spec states it fails for jobs. On the store of the tests, the job that
  \<open>create\<close> returns has the property \<open>companyHandle\<close>, with the value "c1", and the job
  that \<open>get\<close> of its identifier returns has no property of that name.
\<close>

theorem Job_create_then_get_counterexample:
  "fst (Job_create ''Test'' (Some 100) (Some (1 / 10)) ''c1'' test_db)
     = Inr (Obj [(''id'', Num 4), (''title'', Str ''Test''), (''salary'', Num 100),
                 (''equity'', Dec (1 / 10)), (''companyHandle'', Str ''c1'')])
   \<and> fst (Job_get (NumKey 4) (snd (Job_create ''Test'' (Some 100) (Some (1 / 10)) ''c1'' test_db)))
     = Inr (Obj [(''id'', Num 4), (''title'', Str ''Test''), (''salary'', Num 100),
                 (''equity'', Dec (1 / 10)),
                 (''company'',
                  Obj [(''handle'', Str ''c1''), (''name'', Str ''C1''),
                       (''description'', Str ''Desc1''), (''numEmployees'', Num 1),
                       (''logoUrl'', Str ''http://c1.img'')])])
   \<and> map_of [(''id'', Num 4), (''title'', Str ''Test''), (''salary'', Num 100),
              (''equity'', Dec (1 / 10)), (''companyHandle'', Str ''c1'')] ''companyHandle''
     = Some (Str ''c1'')
   \<and> map_of [(''id'', Num 4), (''title'', Str ''Test''), (''salary'', Num 100),
              (''equity'', Dec (1 / 10)),
              (''company'',
               Obj [(''handle'', Str ''c1''), (''name'', Str ''C1''),
                    (''description'', Str ''Desc1''), (''numEmployees'', Num 1),
                    (''logoUrl'', Str ''http://c1.img'')])] ''companyHandle''
     = None"
proof -
  have k: "id_value (key_param (NumKey 4)) = Some (Some 4)"
    by (simp add: int4_def)
  show ?thesis
    by (simp add: Job_create_result Job_get_result [OF k] test_db_def job_obj_def
          company_obj_def of_nullable_def first_row_def int4_def)
qed



section \<open>What a single lookup includes\<close>

lemma Company_get_no_jobs:
  "fst (Company_get h d) = Inr (Obj company) \<Longrightarrow> map_of company ''jobs'' = None"
  by (auto simp: Company_get_result company_obj_def split: list.splits)

lemma Job_get_company_detail:
  assumes "id_value (key_param k) = Some (Some i)"
    and "filter (\<lambda>r. j_id r = i) (jobs d) = j # js"
    and "filter (\<lambda>c. c_handle c = j_company_handle j) (companies d) = c # cs"
  shows "\<exists>job. fst (Job_get k d) = Inr (Obj job)
           \<and> map_of job ''company''
               = Some (Obj [(''handle'', Str (c_handle c)), (''name'', Str (c_name c)),
                            (''description'', Str (c_description c)),
                            (''numEmployees'', of_nullable Num (c_num_employees c)),
                            (''logoUrl'', of_nullable Str (c_logo_url c))])"
  using assms(2,3)
  by (simp add: Job_get_result [OF assms(1)] first_row_def company_obj_def job_obj_def)

text \<open>
  C2. On the store of the tests, where the three jobs belong to the company c1,
  \<open>Company.get\<close> of c1 returns the five columns of the company and no \<open>jobs\<close>, as it
  does for every company (\<open>Company_get_no_jobs\<close>): the method sends one statement, on the
  companies. \<open>Job.get\<close>, for its part, does return the company of the job with its five
  columns (\<open>Job_get_company_detail\<close>).
\<close>

theorem Company_get_without_jobs:
  "map j_company_handle (jobs test_db) = [''c1'', ''c1'', ''c1'']
   \<and> Company_get ''c1'' test_db
     = (Inr (Obj [(''handle'', Str ''c1''), (''name'', Str ''C1''),
                  (''description'', Str ''Desc1''), (''numEmployees'', Num 1),
                  (''logoUrl'', Str ''http://c1.img'')]),
        test_db\<lparr>queries := 1\<rparr>)
   \<and> map_of [(''handle'', Str ''c1''), (''name'', Str ''C1''),
              (''description'', Str ''Desc1''), (''numEmployees'', Num 1),
              (''logoUrl'', Str ''http://c1.img'')] ''jobs'' = None"
  by (simp add: Company_get_result test_db_def company_obj_def of_nullable_def)

end
